theory Spec2Isabelle
  imports Complex_Main "HOL-Library.Sublist" "HOL-Library.Multiset"
begin

section \<open>Python text\<close>

text \<open>
  A Python \<open>str\<close> is a sequence of code points and \<open>len\<close> counts code points. The model
  uses \<^typ>\<open>string\<close> with one \<^typ>\<open>char\<close> per code point, so it covers the texts whose
  code points are below 256 (ASCII and Latin-1). \<open>str.lower\<close>, \<open>str.isspace\<close> and the
  regular expression class \<open>\w\<close> are given by their CPython tables on that range;
  \<open>lower\<close> maps the range into itself and keeps the length.
\<close>

definition isspace :: "char \<Rightarrow> bool" where
  "isspace c = ((of_char c :: nat) \<in> {9, 10, 11, 12, 13, 28, 29, 30, 31, 32, 133, 160})"

definition strip :: "string \<Rightarrow> string" where
  "strip s = rev (dropWhile isspace (rev (dropWhile isspace s)))"

definition upper_letters :: "string" where
  "upper_letters = ''ABCDEFGHIJKLMNOPQRSTUVWXYZ'' @
     [CHR 0xC0, CHR 0xC1, CHR 0xC2, CHR 0xC3, CHR 0xC4, CHR 0xC5, CHR 0xC6, CHR 0xC7,
      CHR 0xC8, CHR 0xC9, CHR 0xCA, CHR 0xCB, CHR 0xCC, CHR 0xCD, CHR 0xCE, CHR 0xCF,
      CHR 0xD0, CHR 0xD1, CHR 0xD2, CHR 0xD3, CHR 0xD4, CHR 0xD5, CHR 0xD6,
      CHR 0xD8, CHR 0xD9, CHR 0xDA, CHR 0xDB, CHR 0xDC, CHR 0xDD, CHR 0xDE]"

definition lower_letters :: "string" where
  "lower_letters = ''abcdefghijklmnopqrstuvwxyz'' @
     [CHR 0xE0, CHR 0xE1, CHR 0xE2, CHR 0xE3, CHR 0xE4, CHR 0xE5, CHR 0xE6, CHR 0xE7,
      CHR 0xE8, CHR 0xE9, CHR 0xEA, CHR 0xEB, CHR 0xEC, CHR 0xED, CHR 0xEE, CHR 0xEF,
      CHR 0xF0, CHR 0xF1, CHR 0xF2, CHR 0xF3, CHR 0xF4, CHR 0xF5, CHR 0xF6,
      CHR 0xF8, CHR 0xF9, CHR 0xFA, CHR 0xFB, CHR 0xFC, CHR 0xFD, CHR 0xFE]"

definition lower_char :: "char \<Rightarrow> char" where
  "lower_char c = (case map_of (zip upper_letters lower_letters) c of
                     Some d \<Rightarrow> d | None \<Rightarrow> c)"

definition lower :: "string \<Rightarrow> string" where
  "lower s = map lower_char s"

text \<open>\<open>sub in s\<close> on strings: \<open>sub\<close> occurs in \<open>s\<close> as a contiguous piece.\<close>

fun py_in :: "string \<Rightarrow> string \<Rightarrow> bool" where
  "py_in sub [] = (sub = [])"
| "py_in sub (c # cs) = (prefix sub (c # cs) \<or> py_in sub cs)"

text \<open>The characters matched by \<open>\w\<close> in a \<open>str\<close> pattern.\<close>

definition is_word_char :: "char \<Rightarrow> bool" where
  "is_word_char c = (let n = (of_char c :: nat) in
     (48 \<le> n \<and> n \<le> 57) \<or> (65 \<le> n \<and> n \<le> 90) \<or> n = 95 \<or> (97 \<le> n \<and> n \<le> 122) \<or>
     n = 170 \<or> n = 178 \<or> n = 179 \<or> n = 181 \<or> n = 185 \<or> n = 186 \<or>
     (188 \<le> n \<and> n \<le> 190) \<or> (192 \<le> n \<and> n \<le> 214) \<or> (216 \<le> n \<and> n \<le> 246) \<or>
     (248 \<le> n \<and> n \<le> 255))"

text \<open>
  \<open>re.findall(r'\b\w+\b', text)\<close>: the maximal runs of word characters, left to right.
  The first argument is the run read so far.
\<close>

fun word_runs :: "string \<Rightarrow> string \<Rightarrow> string list" where
  "word_runs cur [] = (if cur = [] then [] else [cur])"
| "word_runs cur (c # cs) =
     (if is_word_char c then word_runs (cur @ [c]) cs
      else if cur = [] then word_runs [] cs
      else cur # word_runs [] cs)"

definition findall_words :: "string \<Rightarrow> string list" where
  "findall_words text = word_runs [] text"

text \<open>\<open>xs[:k]\<close>: a negative \<open>k\<close> counts from the end.\<close>

definition slice_to :: "'a list \<Rightarrow> int \<Rightarrow> 'a list" where
  "slice_to xs k = (if 0 \<le> k then take (nat k) xs else take (nat (int (length xs) + k)) xs)"

text \<open>\<open>str(n)\<close> for an integer.\<close>

fun str_nat :: "nat \<Rightarrow> string" where
  "str_nat n = (if n < 10 then [''0123456789'' ! n]
                else str_nat (n div 10) @ [''0123456789'' ! (n mod 10)])"

definition str_int :: "int \<Rightarrow> string" where
  "str_int i = (if i < 0 then CHR ''-'' # str_nat (nat (- i)) else str_nat (nat i))"

definition quoted :: "string \<Rightarrow> string" where
  "quoted s = CHR 0x27 # s @ [CHR 0x27]"

section \<open>Python floats\<close>

text \<open>
  A finite float is the rational number it denotes. \<open>double x\<close> is the double-precision
  number nearest to \<open>x\<close>, a tie going to the one with the even significand: what a
  decimal literal denotes, what the conversion of an integer gives and how the exact
  result of an arithmetic operation is rounded. Significands have 53 bits at every
  magnitude: subnormal numbers and overflow are not modelled, and no value here comes
  near them.
\<close>

definition round_half_even :: "rat \<Rightarrow> int" where
  "round_half_even q =
     (let f = \<lfloor>q\<rfloor>; r = q - of_int f
      in if r < 1 / 2 then f else if 1 / 2 < r then f + 1 else if even f then f else f + 1)"

function bit_length :: "int \<Rightarrow> nat" where
  "bit_length n = (if n \<le> 0 then 0 else Suc (bit_length (n div 2)))"
  by pat_completeness auto
termination
  by (relation "measure nat") auto

definition pow2 :: "int \<Rightarrow> rat" where
  "pow2 e = (if 0 \<le> e then 2 ^ nat e else 1 / 2 ^ nat (- e))"

text \<open>For a positive \<open>x\<close>, the \<open>e\<close> with \<open>pow2 e \<le> x < pow2 (e + 1)\<close>.\<close>

definition floor_log2 :: "rat \<Rightarrow> int" where
  "floor_log2 x =
     (let e = int (bit_length (fst (quotient_of x))) - int (bit_length (snd (quotient_of x)))
      in if pow2 e \<le> x then e else e - 1)"

definition double :: "rat \<Rightarrow> rat" where
  "double x =
     (if x = 0 then 0
      else let a = \<bar>x\<bar>;
               ulp = pow2 (floor_log2 a - 52)
           in sgn x * of_int (round_half_even (a / ulp)) * ulp)"

text \<open>\<open>a * b\<close> on floats.\<close>

definition float_mul :: "rat \<Rightarrow> rat \<Rightarrow> rat" where
  "float_mul a b = double (a * b)"

section \<open>Values decoded from JSON, and exceptions\<close>

text \<open>
  What \<open>json.loads\<close> produces and what the fields typed \<open>Any\<close> hold. A dictionary is
  an association list in insertion order. \<open>JFloat\<close> carries the value of a finite float;
  only its being zero or not is ever inspected.
\<close>

datatype json =
    JNull
  | JBool bool
  | JInt int
  | JFloat rat
  | JStr string
  | JList "json list"
  | JDict "(string \<times> json) list"

type_synonym dict = "(string \<times> json) list"

datatype py_error =
    ValidationError string
  | GeminiAPIError string
  | RAGError string
  | TypeError string
  | AttributeError string
  | JSONDecodeError string
  | OtherException string

text \<open>\<open>str(e)\<close>\<close>

fun str_error :: "py_error \<Rightarrow> string" where
  "str_error (ValidationError m) = m"
| "str_error (GeminiAPIError m) = m"
| "str_error (RAGError m) = m"
| "str_error (TypeError m) = m"
| "str_error (AttributeError m) = m"
| "str_error (JSONDecodeError m) = m"
| "str_error (OtherException m) = m"

fun type_name :: "json \<Rightarrow> string" where
  "type_name JNull = ''NoneType''"
| "type_name (JBool b) = ''bool''"
| "type_name (JInt i) = ''int''"
| "type_name (JFloat r) = ''float''"
| "type_name (JStr s) = ''str''"
| "type_name (JList xs) = ''list''"
| "type_name (JDict d) = ''dict''"

text \<open>Truth value testing, as in \<open>if not v\<close> and \<open>v or []\<close>.\<close>

fun truthy :: "json \<Rightarrow> bool" where
  "truthy JNull = False"
| "truthy (JBool b) = b"
| "truthy (JInt i) = (i \<noteq> 0)"
| "truthy (JFloat r) = (r \<noteq> 0)"
| "truthy (JStr s) = (s \<noteq> [])"
| "truthy (JList xs) = (xs \<noteq> [])"
| "truthy (JDict d) = (d \<noteq> [])"

text \<open>\<open>d.get(key, default)\<close>\<close>

definition py_get :: "dict \<Rightarrow> string \<Rightarrow> json \<Rightarrow> json" where
  "py_get d key dflt = (case map_of d key of Some v \<Rightarrow> v | None \<Rightarrow> dflt)"

text \<open>\<open>d[key] = v\<close>, also one step of \<open>d.update\<close>: replace in place or append.\<close>

fun dict_set :: "dict \<Rightarrow> string \<Rightarrow> json \<Rightarrow> dict" where
  "dict_set [] key v = [(key, v)]"
| "dict_set ((k, w) # d) key v = (if k = key then (k, v) # d else (k, w) # dict_set d key v)"

text \<open>
  The elements a \<open>for\<close> loop sees: those of a list, the characters of a string, the keys
  of a dictionary; anything else is not iterable.
\<close>

fun py_iter :: "json \<Rightarrow> py_error + json list" where
  "py_iter (JList xs) = Inr xs"
| "py_iter (JStr s) = Inr (map (\<lambda>c. JStr [c]) s)"
| "py_iter (JDict d) = Inr (map (\<lambda>kv. JStr (fst kv)) d)"
| "py_iter v = Inl (TypeError (quoted (type_name v) @ '' object is not iterable''))"

section \<open>core/models.py\<close>

text \<open>
  Both enumerations have a member \<open>LOW\<close>; the one of \<open>UrgencyLevel\<close> is \<open>LOW_U\<close> here.
\<close>

datatype ConfidenceLevel = HIGH | MEDIUM | LOW

datatype UrgencyLevel = CRITICAL | URGENT | MODERATE | LOW_U

fun confidence_value :: "ConfidenceLevel \<Rightarrow> string" where
  "confidence_value HIGH = ''High''"
| "confidence_value MEDIUM = ''Medium''"
| "confidence_value LOW = ''Low''"

fun urgency_value :: "UrgencyLevel \<Rightarrow> string" where
  "urgency_value CRITICAL = ''Critical''"
| "urgency_value URGENT = ''Urgent''"
| "urgency_value MODERATE = ''Moderate''"
| "urgency_value LOW_U = ''Low''"

text \<open>
  \<open>ConfidenceLevel(v)\<close> and \<open>UrgencyLevel(v)\<close>: the member whose value is \<open>v\<close>, or
  \<open>ValueError\<close> (here \<open>None\<close>) for every other value of any type.
\<close>

fun ConfidenceLevel_of :: "json \<Rightarrow> ConfidenceLevel option" where
  "ConfidenceLevel_of (JStr s) =
     (if s = ''High'' then Some HIGH else if s = ''Medium'' then Some MEDIUM
      else if s = ''Low'' then Some LOW else None)"
| "ConfidenceLevel_of v = None"

fun UrgencyLevel_of :: "json \<Rightarrow> UrgencyLevel option" where
  "UrgencyLevel_of (JStr s) =
     (if s = ''Critical'' then Some CRITICAL else if s = ''Urgent'' then Some URGENT
      else if s = ''Moderate'' then Some MODERATE else if s = ''Low'' then Some LOW_U
      else None)"
| "UrgencyLevel_of v = None"

text \<open>
  The fields \<open>id\<close> and \<open>keywords\<close> of \<open>MedicalFact\<close> are \<open>fact_id\<close> and
  \<open>fact_keywords\<close> here. The reliability score is a float.
\<close>

record MedicalFact =
  fact_id :: string
  fact :: string
  category :: string
  fact_keywords :: "string list"
  source :: "string option"
  reliability_score :: rat

text \<open>
  The fields of \<open>Condition\<close> and \<open>DiagnosisResult\<close> that are filled from the model's
  reply without any conversion hold whatever the reply holds, so they are \<^typ>\<open>json\<close>;
  \<open>None\<close> is \<^const>\<open>JNull\<close>.
\<close>

record Condition =
  name :: json
  confidence :: ConfidenceLevel
  reasoning :: json
  recommendation :: json
  urgency :: UrgencyLevel
  related_symptoms :: json

record DiagnosisResult =
  conditions :: "Condition list"
  flagged :: json
  urgency_level :: UrgencyLevel
  disclaimer :: string
  lifestyle_suggestions :: json
  next_steps :: json
  metadata :: dict

definition condition_to_dict :: "Condition \<Rightarrow> json" where
  "condition_to_dict c = JDict
     [(''condition'', name c),
      (''confidence'', JStr (confidence_value (confidence c))),
      (''reasoning'', reasoning c),
      (''recommendation'', recommendation c),
      (''urgency'', JStr (urgency_value (urgency c))),
      (''related_symptoms'', related_symptoms c)]"

definition to_dict :: "DiagnosisResult \<Rightarrow> dict" where
  "to_dict r =
     [(''possible_conditions'', JList (map condition_to_dict (conditions r))),
      (''flagged'', flagged r),
      (''urgency_level'', JStr (urgency_value (urgency_level r))),
      (''lifestyle_suggestions'',
         (if truthy (lifestyle_suggestions r) then lifestyle_suggestions r else JList [])),
      (''next_steps'', next_steps r),
      (''disclaimer'', JStr (disclaimer r)),
      (''metadata'', JDict (metadata r))]"

section \<open>data/medical_facts.py\<close>

text \<open>The entries of the table, each under the name of its \<open>id\<close>.\<close>

definition fever_001 :: MedicalFact where
  "fever_001 = \<lparr>
     fact_id = ''fever_001'',
     fact = ''Fever is typically defined as a body temperature above 100.4'' @ [CHR 0xB0] @
       ''F (38'' @ [CHR 0xB0] @ ''C). It's often a sign of infection or inflammation.'',
     category = ''Fever'',
     fact_keywords = [''fever'', ''temperature'', ''hot'', ''chills'', ''sweating''],
     source = Some ''Mayo Clinic'',
     reliability_score = double (95 / 100)\<rparr>"

definition infection_001 :: MedicalFact where
  "infection_001 = \<lparr>
     fact_id = ''infection_001'',
     fact = ''Common symptoms of viral infections include fever, fatigue, body aches, and '' @
       ''respiratory symptoms.'',
     category = ''Infection'',
     fact_keywords = [''infection'', ''viral'', ''bacterial'', ''flu'', ''cold''],
     source = Some ''CDC'',
     reliability_score = double (95 / 100)\<rparr>"

definition respiratory_001 :: MedicalFact where
  "respiratory_001 = \<lparr>
     fact_id = ''respiratory_001'',
     fact = ''Shortness of breath, especially when accompanied by chest pain, can indicate '' @
       ''serious conditions requiring immediate medical attention.'',
     category = ''Respiratory'',
     fact_keywords = [''shortness of breath'', ''difficulty breathing'', ''chest pain'', ''wheezing''],
     source = Some ''American Lung Association'',
     reliability_score = double (98 / 100)\<rparr>"

definition respiratory_002 :: MedicalFact where
  "respiratory_002 = \<lparr>
     fact_id = ''respiratory_002'',
     fact = ''Persistent cough lasting more than 3 weeks should be evaluated by a '' @
       ''healthcare provider.'',
     category = ''Respiratory'',
     fact_keywords = [''cough'', ''persistent'', ''chronic''],
     source = Some ''American Thoracic Society'',
     reliability_score = double (90 / 100)\<rparr>"

definition headache_001 :: MedicalFact where
  "headache_001 = \<lparr>
     fact_id = ''headache_001'',
     fact = ''Migraines often present with throbbing pain, nausea, sensitivity to light and '' @
       ''sound, and can last 4-72 hours.'',
     category = ''Neurological'',
     fact_keywords = [''migraine'', ''headache'', ''throbbing'', ''nausea'', ''light sensitivity''],
     source = Some ''American Migraine Foundation'',
     reliability_score = double (92 / 100)\<rparr>"

definition headache_002 :: MedicalFact where
  "headache_002 = \<lparr>
     fact_id = ''headache_002'',
     fact = ''Sudden severe headache (thunderclap headache) requires immediate medical '' @
       ''evaluation as it may indicate serious conditions.'',
     category = ''Neurological'',
     fact_keywords = [''sudden headache'', ''severe headache'', ''thunderclap''],
     source = Some ''Mayo Clinic'',
     reliability_score = double (98 / 100)\<rparr>"

definition digestive_001 :: MedicalFact where
  "digestive_001 = \<lparr>
     fact_id = ''digestive_001'',
     fact = ''Gastroenteritis (stomach flu) typically causes nausea, vomiting, diarrhea, '' @
       ''and abdominal cramps, usually resolving within 1-3 days.'',
     category = ''Digestive'',
     fact_keywords = [''nausea'', ''vomiting'', ''diarrhea'', ''stomach'', ''abdominal'', ''cramps''],
     source = Some ''CDC'',
     reliability_score = double (93 / 100)\<rparr>"

definition digestive_002 :: MedicalFact where
  "digestive_002 = \<lparr>
     fact_id = ''digestive_002'',
     fact = ''Severe abdominal pain, especially with fever or bloody stools, requires '' @
       ''prompt medical evaluation.'',
     category = ''Digestive'',
     fact_keywords = [''severe abdominal pain'', ''bloody stool'', ''fever''],
     source = Some ''American Gastroenterological Association'',
     reliability_score = double (95 / 100)\<rparr>"

definition cardiac_001 :: MedicalFact where
  "cardiac_001 = \<lparr>
     fact_id = ''cardiac_001'',
     fact = ''Chest pain, especially when radiating to the arm, jaw, or back, along with '' @
       ''shortness of breath, may indicate a heart condition requiring immediate attention.'',
     category = ''Cardiovascular'',
     fact_keywords = [''chest pain'', ''heart'', ''cardiac'', ''arm pain'', ''jaw pain''],
     source = Some ''American Heart Association'',
     reliability_score = double (99 / 100)\<rparr>"

definition fatigue_001 :: MedicalFact where
  "fatigue_001 = \<lparr>
     fact_id = ''fatigue_001'',
     fact = ''Chronic fatigue can be caused by various factors including sleep disorders, '' @
       ''anemia, thyroid issues, or mental health conditions.'',
     category = ''General'',
     fact_keywords = [''fatigue'', ''tiredness'', ''exhaustion'', ''weakness''],
     source = Some ''Mayo Clinic'',
     reliability_score = double (88 / 100)\<rparr>"

definition skin_001 :: MedicalFact where
  "skin_001 = \<lparr>
     fact_id = ''skin_001'',
     fact = ''Rash with fever, especially in children, should be evaluated by a healthcare '' @
       ''provider to rule out serious conditions.'',
     category = ''Dermatological'',
     fact_keywords = [''rash'', ''skin'', ''redness'', ''itching''],
     source = Some ''American Academy of Dermatology'',
     reliability_score = double (90 / 100)\<rparr>"

definition pain_001 :: MedicalFact where
  "pain_001 = \<lparr>
     fact_id = ''pain_001'',
     fact = ''Acute pain that is severe, sudden, or accompanied by other symptoms like '' @
       ''fever or loss of function should be evaluated promptly.'',
     category = ''General'',
     fact_keywords = [''severe pain'', ''acute pain'', ''sudden pain''],
     source = Some ''American Pain Society'',
     reliability_score = double (87 / 100)\<rparr>"

definition mental_001 :: MedicalFact where
  "mental_001 = \<lparr>
     fact_id = ''mental_001'',
     fact = ''Persistent feelings of sadness, anxiety, or changes in sleep and appetite '' @
       ''patterns may indicate mental health concerns that benefit from professional support.'',
     category = ''Mental Health'',
     fact_keywords = [''sadness'', ''anxiety'', ''depression'', ''mood''],
     source = Some ''National Institute of Mental Health'',
     reliability_score = double (90 / 100)\<rparr>"

definition MEDICAL_FACTS_DB :: "MedicalFact list" where
  "MEDICAL_FACTS_DB =
     [fever_001, infection_001, respiratory_001, respiratory_002, headache_001, headache_002,
      digestive_001, digestive_002, cardiac_001, fatigue_001, skin_001, pain_001, mental_001]"

text \<open>
  The innermost loop of \<open>get_facts_by_keywords\<close>, which leaves at the first fact
  keyword that contains the user keyword or is contained in it.
\<close>

fun matches_any :: "string \<Rightarrow> string list \<Rightarrow> bool" where
  "matches_any user_keyword [] = False"
| "matches_any user_keyword (fact_keyword # rest) =
     (if py_in user_keyword fact_keyword \<or> py_in fact_keyword user_keyword then True
      else matches_any user_keyword rest)"

text \<open>The loop over the user keywords; the last argument is \<open>score\<close>.\<close>

fun count_matches :: "string list \<Rightarrow> string list \<Rightarrow> nat \<Rightarrow> nat" where
  "count_matches [] fact_keywords_lower score = score"
| "count_matches (user_keyword # rest) fact_keywords_lower score =
     count_matches rest fact_keywords_lower
       (if matches_any user_keyword fact_keywords_lower then score + 1 else score)"

text \<open>The loop over the table; the last argument is \<open>scored_facts\<close>.\<close>

fun score_facts ::
  "MedicalFact list \<Rightarrow> string list \<Rightarrow> (rat \<times> MedicalFact) list \<Rightarrow> (rat \<times> MedicalFact) list"
where
  "score_facts [] kws scored_facts = scored_facts"
| "score_facts (f # fs) kws scored_facts =
     (let fact_keywords_lower = map lower (fact_keywords f);
          user_keywords_lower = map lower kws;
          score = count_matches user_keywords_lower fact_keywords_lower 0
      in score_facts fs kws
           (if score > 0
            then scored_facts @ [(float_mul (double (of_nat score)) (reliability_score f), f)]
            else scored_facts))"

text \<open>
  \<open>list.sort(key, reverse=True)\<close> is stable: entries with equal keys keep their order.
  It is \<^const>\<open>sort_key\<close>, which is stable too, on the negated key.
\<close>

definition get_facts_by_keywords :: "string list \<Rightarrow> int \<Rightarrow> MedicalFact list" where
  "get_facts_by_keywords kws top_k =
     map snd (slice_to (sort_key (\<lambda>x. - fst x) (score_facts MEDICAL_FACTS_DB kws [])) top_k)"

definition get_all_facts :: "MedicalFact list" where
  "get_all_facts = MEDICAL_FACTS_DB"

section \<open>core/rag_engine.py\<close>

definition medical_keywords :: "string list" where
  "medical_keywords =
     [''fever'', ''headache'', ''pain'', ''ache'', ''nausea'', ''vomiting'',
      ''diarrhea'', ''cough'', ''sore throat'', ''fatigue'', ''tired'',
      ''shortness of breath'', ''chest pain'', ''abdominal'', ''stomach'',
      ''rash'', ''itching'', ''swelling'', ''dizziness'', ''lightheaded'',
      ''chills'', ''sweating'', ''muscle'', ''joint'', ''stiffness'',
      ''numbness'', ''tingling'', ''weakness'', ''confusion'', ''anxiety'',
      ''depression'', ''mood'', ''sleep'', ''appetite'', ''weight'']"

definition stop_words :: "string set" where
  "stop_words = {''the'', ''a'', ''an'', ''and'', ''or'', ''but'', ''in'', ''on'', ''at'',
                 ''to'', ''for'', ''of'', ''with'', ''by'', ''i'', ''have'', ''had'', ''has'',
                 ''been'', ''is'', ''are'', ''was'', ''were'', ''be'', ''been'', ''being''}"

text \<open>The second loop of \<open>extract_keywords\<close>; the first argument is \<open>found_keywords\<close>.\<close>

fun add_words :: "string list \<Rightarrow> string list \<Rightarrow> string list" where
  "add_words found_keywords [] = found_keywords"
| "add_words found_keywords (w # ws) =
     add_words
       (if length w > 3 \<and> w \<notin> stop_words \<and> w \<notin> set found_keywords
        then found_keywords @ [w] else found_keywords) ws"

definition extract_keywords :: "string \<Rightarrow> string list" where
  "extract_keywords text =
     (let text_lower = lower text;
          found_keywords = filter (\<lambda>keyword. py_in keyword text_lower) medical_keywords;
          words = findall_words text_lower
      in take 20 (add_words found_keywords words))"

text \<open>
  The first argument is \<open>self.top_k\<close>. Nothing in the body can raise on a string and
  an integer, so the handler that wraps exceptions into \<open>RAGError\<close> is never entered.
\<close>

definition retrieve_relevant_facts :: "int \<Rightarrow> string \<Rightarrow> int option \<Rightarrow> MedicalFact list" where
  "retrieve_relevant_facts self_top_k symptoms top_k =
     (if symptoms = [] \<or> strip symptoms = [] then []
      else
        let k = (case top_k of Some v \<Rightarrow> v | None \<Rightarrow> self_top_k);
            kws = extract_keywords symptoms
        in if kws = [] then slice_to get_all_facts k
           else let facts = get_facts_by_keywords kws k
                in if facts = [] then slice_to get_all_facts k else facts)"

section \<open>core/gemini_client.py\<close>

text \<open>\<open>text.find(c)\<close> and \<open>text.rfind(c)\<close>: an index, or \<open>-1\<close>.\<close>

fun find_from :: "char \<Rightarrow> string \<Rightarrow> nat \<Rightarrow> int" where
  "find_from c [] i = - 1"
| "find_from c (x # xs) i = (if x = c then int i else find_from c xs (Suc i))"

definition py_find :: "string \<Rightarrow> char \<Rightarrow> int" where
  "py_find text c = find_from c text 0"

definition py_rfind :: "string \<Rightarrow> char \<Rightarrow> int" where
  "py_rfind text c =
     (let r = find_from c (rev text) 0
      in if r = - 1 then - 1 else int (length text) - 1 - r)"

definition extract_json :: "string \<Rightarrow> string" where
  "extract_json text0 =
     (let text = strip text0;
          start_idx = py_find text (CHR ''{'');
          end_idx = py_rfind text (CHR ''}'')
      in if start_idx \<noteq> - 1 \<and> end_idx \<noteq> - 1 \<and> end_idx > start_idx
         then take (nat (end_idx + 1 - start_idx)) (drop (nat start_idx) text)
         else text)"

definition create_fallback_response :: "string \<Rightarrow> json" where
  "create_fallback_response symptom_text = JDict
     [(''conditions'', JList [JDict
         [(''name'', JStr ''Unable to analyze''),
          (''confidence'', JStr ''Low''),
          (''reasoning'', JStr
             ''Unable to process symptoms at this time. Please consult a healthcare provider.''),
          (''recommendation'', JStr
             ''Please consult with a healthcare professional for proper evaluation.''),
          (''urgency'', JStr ''Moderate''),
          (''related_symptoms'', JList [])]]),
      (''is_urgent'', JBool False),
      (''urgency_level'', JStr ''Moderate''),
      (''next_steps'', JList [JStr ''Consult a healthcare provider'', JStr ''Monitor symptoms'',
          JStr ''Seek emergency care if symptoms worsen'']),
      (''lifestyle_suggestions'', JList [])]"

text \<open>
  The two collaborators of \<open>GeminiClient.analyze_symptoms\<close> that are not code of the
  repository are parameters. \<open>model attempt\<close> is what
  \<open>self.model.generate_content(prompt, ...)\<close> followed by \<open>response.text\<close> does in the
  given attempt: the reply text, or the exception raised. \<open>loads\<close> is \<open>json.loads\<close>:
  the decoded value, or the exception raised. The prompt is built once, before the loop,
  and does not enter the control flow.

  The result carries the delays passed to \<open>time.sleep\<close>, in order.
\<close>

definition sleep :: "nat \<Rightarrow> nat list \<times> 'a \<Rightarrow> nat list \<times> 'a" where
  "sleep d r = (d # fst r, snd r)"

text \<open>The body of the \<open>try\<close> block: the value it returns, or the exception it raises.\<close>

definition try_body ::
  "(nat \<Rightarrow> py_error + string) \<Rightarrow> (string \<Rightarrow> py_error + json) \<Rightarrow> nat \<Rightarrow> py_error + json" where
  "try_body model loads attempt =
     (case model attempt of
        Inl e \<Rightarrow> Inl e
      | Inr response_text \<Rightarrow> loads (extract_json (strip response_text)))"

fun is_JSONDecodeError :: "py_error \<Rightarrow> bool" where
  "is_JSONDecodeError (JSONDecodeError m) = True"
| "is_JSONDecodeError e = False"

text \<open>
  The loop \<open>for attempt in range(self.max_retries)\<close> with its two handlers, and the
  statement after it.
\<close>

fun attempts ::
  "int \<Rightarrow> (nat \<Rightarrow> py_error + string) \<Rightarrow> (string \<Rightarrow> py_error + json) \<Rightarrow> string \<Rightarrow> nat list \<Rightarrow>
   nat list \<times> (py_error + json)"
where
  "attempts max_retries model loads symptom_text [] =
     ([], Inl (GeminiAPIError ''Failed to get response from Gemini API''))"
| "attempts max_retries model loads symptom_text (attempt # rest) =
     (case try_body model loads attempt of
        Inr result \<Rightarrow> ([], Inr result)
      | Inl e \<Rightarrow>
          (if is_JSONDecodeError e
           then (if int attempt = max_retries - 1
                 then ([], Inr (create_fallback_response symptom_text))
                 else sleep 1 (attempts max_retries model loads symptom_text rest))
           else (if int attempt = max_retries - 1
                 then ([], Inl (GeminiAPIError
                        (''Failed to get response from Gemini API after '' @
                         str_int max_retries @ '' attempts: '' @ str_error e)))
                 else sleep (2 ^ attempt) (attempts max_retries model loads symptom_text rest))))"

definition GeminiClient_analyze_symptoms ::
  "int \<Rightarrow> (nat \<Rightarrow> py_error + string) \<Rightarrow> (string \<Rightarrow> py_error + json) \<Rightarrow> string \<Rightarrow>
   nat list \<times> (py_error + json)"
where
  "GeminiClient_analyze_symptoms max_retries model loads symptom_text =
     attempts max_retries model loads symptom_text [0 ..< nat max_retries]"

section \<open>core/diagnosis_logic.py\<close>

text \<open>
  The disclaimer starts with a warning sign (U+26A0 U+FE0F), which has no code point
  below 256; it is written as its six UTF-8 bytes. Nothing measures this text.
\<close>

definition MEDICAL_DISCLAIMER :: string where
  "MEDICAL_DISCLAIMER =
     [CHR 0xE2, CHR 0x9A, CHR 0xA0, CHR 0xEF, CHR 0xB8, CHR 0x8F] @
     '' IMPORTANT: This is not a substitute for professional medical advice. '' @
     ''Always consult with a qualified healthcare provider for proper diagnosis and treatment. '' @
     ''For medical emergencies, call emergency services immediately.''"

definition URGENT_KEYWORDS :: "string list" where
  "URGENT_KEYWORDS =
     [''chest pain'', ''heart attack'', ''stroke'', ''severe difficulty breathing'',
      ''can't breathe'', ''unconscious'', ''severe bleeding'', ''severe allergic reaction'',
      ''severe burn'', ''severe head injury'', ''severe abdominal pain'', ''severe pain'',
      ''loss of consciousness'', ''seizure'', ''choking'', ''severe trauma'',
      ''sudden severe headache'', ''thunderclap headache'', ''severe dizziness'',
      ''severe confusion'', ''severe weakness'', ''paralysis'']"

text \<open>The loop of \<open>check_urgent_keywords\<close>, which returns at the first keyword found.\<close>

fun any_keyword_in :: "string list \<Rightarrow> string \<Rightarrow> bool" where
  "any_keyword_in [] symptoms_lower = False"
| "any_keyword_in (keyword # rest) symptoms_lower =
     (if py_in keyword symptoms_lower then True else any_keyword_in rest symptoms_lower)"

definition check_urgent_keywords :: "string \<Rightarrow> bool" where
  "check_urgent_keywords symptoms = any_keyword_in URGENT_KEYWORDS (lower symptoms)"

text \<open>\<open>None\<close> when the function returns, \<open>Some\<close> of the exception it raises.\<close>

definition validate_symptoms :: "string \<Rightarrow> py_error option" where
  "validate_symptoms symptoms =
     (if symptoms = [] \<or> strip symptoms = []
      then Some (ValidationError ''Symptoms cannot be empty. Please describe your symptoms.'')
      else if length (strip symptoms) < 3
      then Some (ValidationError
                   ''Symptom description is too short. Please provide more details.'')
      else if length symptoms > 2000
      then Some (ValidationError
                   ''Symptom description is too long. Please keep it under 2000 characters.'')
      else None)"

text \<open>
  The body of the first loop of \<open>parse_llm_response\<close>. \<open>cond_data.get\<close> exists only on a
  dictionary; on any other value the first call raises \<open>AttributeError\<close>.
\<close>

fun parse_condition :: "json \<Rightarrow> py_error + Condition" where
  "parse_condition (JDict cond_data) = Inr
     \<lparr>name = py_get cond_data ''name'' (JStr ''Unknown Condition''),
      confidence = (case ConfidenceLevel_of (py_get cond_data ''confidence'' (JStr ''Low'')) of
                      Some c \<Rightarrow> c | None \<Rightarrow> LOW),
      reasoning = py_get cond_data ''reasoning'' (JStr ''No reasoning provided''),
      recommendation =
        py_get cond_data ''recommendation'' (JStr ''Consult a healthcare provider''),
      urgency = (case UrgencyLevel_of (py_get cond_data ''urgency'' (JStr ''Moderate'')) of
                   Some u \<Rightarrow> u | None \<Rightarrow> MODERATE),
      related_symptoms = py_get cond_data ''related_symptoms'' (JList [])\<rparr>"
| "parse_condition v =
     Inl (AttributeError (quoted (type_name v) @ '' object has no attribute '' @ quoted ''get''))"

fun parse_conditions :: "json list \<Rightarrow> py_error + Condition list" where
  "parse_conditions [] = Inr []"
| "parse_conditions (cond_data # rest) =
     (case parse_condition cond_data of
        Inl e \<Rightarrow> Inl e
      | Inr condition \<Rightarrow>
          (case parse_conditions rest of
             Inl e \<Rightarrow> Inl e
           | Inr conds \<Rightarrow> Inr (condition # conds)))"

text \<open>The second loop: the urgency of the first condition that is critical or urgent.\<close>

fun first_urgent :: "Condition list \<Rightarrow> UrgencyLevel option" where
  "first_urgent [] = None"
| "first_urgent (cond # rest) =
     (if urgency cond \<in> {CRITICAL, URGENT} then Some (urgency cond) else first_urgent rest)"

definition parse_llm_response :: "dict \<Rightarrow> py_error + DiagnosisResult" where
  "parse_llm_response response =
     (case py_iter (py_get response ''conditions'' (JList [])) of
        Inl e \<Rightarrow> Inl e
      | Inr items \<Rightarrow>
     (case parse_conditions items of
        Inl e \<Rightarrow> Inl e
      | Inr conds \<Rightarrow>
          let is_urgent = py_get response ''is_urgent'' (JBool False);
              level = (case UrgencyLevel_of
                              (py_get response ''urgency_level'' (JStr ''Moderate'')) of
                         Some u \<Rightarrow> u | None \<Rightarrow> MODERATE);
              found = (if \<not> truthy is_urgent then first_urgent conds else None)
          in Inr
            \<lparr>conditions = conds,
             flagged = (case found of Some u \<Rightarrow> JBool True | None \<Rightarrow> is_urgent),
             urgency_level = (case found of Some u \<Rightarrow> u | None \<Rightarrow> level),
             disclaimer = MEDICAL_DISCLAIMER,
             lifestyle_suggestions = py_get response ''lifestyle_suggestions'' JNull,
             next_steps = py_get response ''next_steps'' (JList []),
             metadata = [(''source'', JStr ''gemini_ai''),
                         (''conditions_count'', JInt (int (length conds)))]\<rparr>))"

text \<open>
  \<open>DiagnosisAnalyzer.analyze_symptoms\<close>. The analyzer's two collaborators are its
  parameters: \<open>gemini\<close> is \<open>self.gemini_client.analyze_symptoms\<close>, which returns a reply
  dictionary or raises, and \<open>self_top_k\<close> is the \<open>top_k\<close> of \<open>self.rag_engine\<close>.
  Besides the outcome, the result lists the calls made to the collaborators, in order.
\<close>

datatype call = FactRetrieval | ModelCall

definition analyze_symptoms ::
  "(string \<Rightarrow> MedicalFact list \<Rightarrow> string \<Rightarrow> bool \<Rightarrow> py_error + dict) \<Rightarrow> int \<Rightarrow>
   string \<Rightarrow> string \<Rightarrow> bool \<Rightarrow> call list \<times> (py_error + DiagnosisResult)"
where
  "analyze_symptoms gemini self_top_k symptoms prompt_type include_lifestyle =
     (case validate_symptoms symptoms of
        Some e \<Rightarrow> ([], Inl e)
      | None \<Rightarrow>
     (let is_urgent_rule = check_urgent_keywords symptoms;
          medical_facts = retrieve_relevant_facts self_top_k symptoms None
      in case gemini symptoms medical_facts prompt_type include_lifestyle of
           Inl e \<Rightarrow>
             ([FactRetrieval, ModelCall], Inr
               \<lparr>conditions =
                  [\<lparr>name = JStr ''Analysis Unavailable'',
                    confidence = LOW,
                    reasoning = JStr (''Unable to analyze symptoms at this time. '' @
                                      ''Please consult a healthcare provider.''),
                    recommendation = JStr
                      ''Please consult with a healthcare professional for proper evaluation.'',
                    urgency = MODERATE,
                    related_symptoms = JList []\<rparr>],
                flagged = JBool is_urgent_rule,
                urgency_level = (if is_urgent_rule then URGENT else MODERATE),
                disclaimer = MEDICAL_DISCLAIMER,
                lifestyle_suggestions = JNull,
                next_steps = JList [JStr ''Consult a healthcare provider'',
                                    JStr ''Monitor symptoms''],
                metadata = [(''error'', JStr (str_error e))]\<rparr>)
         | Inr llm_response \<Rightarrow>
             (case parse_llm_response llm_response of
                Inl e \<Rightarrow> ([FactRetrieval, ModelCall], Inl e)
              | Inr result \<Rightarrow>
                  let merged =
                        (if is_urgent_rule \<and> \<not> truthy (flagged result)
                         then result\<lparr>flagged := JBool True,
                                     urgency_level :=
                                       (if urgency_level result = MODERATE then URGENT
                                        else urgency_level result)\<rparr>
                         else result)
                  in ([FactRetrieval, ModelCall], Inr
                       (merged\<lparr>metadata :=
                          dict_set
                            (dict_set (metadata merged) ''rule_based_urgent''
                               (JBool is_urgent_rule))
                            ''medical_facts_count'' (JInt (int (length medical_facts)))\<rparr>)))))"

section \<open>Gateways and model behaviours used as concrete inputs\<close>

text \<open>A gateway that returns a given reply, and one that raises a given exception.\<close>

definition replying ::
  "dict \<Rightarrow> string \<Rightarrow> MedicalFact list \<Rightarrow> string \<Rightarrow> bool \<Rightarrow> py_error + dict" where
  "replying reply symptoms medical_facts prompt_type include_lifestyle = Inr reply"

definition raising ::
  "py_error \<Rightarrow> string \<Rightarrow> MedicalFact list \<Rightarrow> string \<Rightarrow> bool \<Rightarrow> py_error + dict" where
  "raising e symptoms medical_facts prompt_type include_lifestyle = Inl e"

text \<open>
  An external model that answers every attempt with the same text, one whose every call
  raises the same exception, and a \<open>json.loads\<close> that rejects every text.
\<close>

definition always_text :: "string \<Rightarrow> nat \<Rightarrow> py_error + string" where
  "always_text t attempt = Inr t"

definition always_raises :: "py_error \<Rightarrow> nat \<Rightarrow> py_error + string" where
  "always_raises e attempt = Inl e"

definition loads_rejects :: "string \<Rightarrow> py_error + json" where
  "loads_rejects t = Inl (JSONDecodeError ''Expecting value: line 1 column 1 (char 0)'')"

section \<open>The scoring rule in the words of the specification\<close>

text \<open>
  A user keyword matches a fact keyword when, both in lower case, one is a substring of
  the other. The match count of a fact is the number of user keywords that match at
  least one of its keywords, each user keyword counted once; its score is the match
  count times its reliability score, a product of floats.
\<close>

definition keyword_matches :: "string \<Rightarrow> string \<Rightarrow> bool" where
  "keyword_matches user_kw fact_kw =
     (sublist (lower user_kw) (lower fact_kw) \<or> sublist (lower fact_kw) (lower user_kw))"

definition match_count :: "MedicalFact \<Rightarrow> string list \<Rightarrow> nat" where
  "match_count f kws =
     length (filter (\<lambda>user_kw. \<exists>fact_kw \<in> set (fact_keywords f). keyword_matches user_kw fact_kw)
               kws)"

definition match_score :: "MedicalFact \<Rightarrow> string list \<Rightarrow> rat" where
  "match_score f kws = float_mul (double (of_nat (match_count f kws))) (reliability_score f)"

text \<open>
  A reply whose \<open>is_urgent\<close> is false and whose conditions are an urgent one followed by
  a critical one; the other fields of the entries are left to their defaults.
\<close>

definition reply_urgent_then_critical :: dict where
  "reply_urgent_then_critical =
     [(''conditions'', JList [JDict [(''name'', JStr ''Migraine''), (''urgency'', JStr ''Urgent'')],
                              JDict [(''name'', JStr ''Stroke''), (''urgency'', JStr ''Critical'')]]),
      (''is_urgent'', JBool False)]"

text \<open>A result with one condition and no lifestyle suggestions.\<close>

definition common_cold_result :: DiagnosisResult where
  "common_cold_result =
     \<lparr>conditions =
        [\<lparr>name = JStr ''Common Cold'',
          confidence = MEDIUM,
          reasoning = JStr ''Symptoms match common viral infection patterns'',
          recommendation = JStr ''Rest, hydration, over-the-counter symptom relief'',
          urgency = LOW_U,
          related_symptoms = JList [JStr ''cough'', JStr ''sore throat'']\<rparr>],
      flagged = JBool False,
      urgency_level = LOW_U,
      disclaimer = MEDICAL_DISCLAIMER,
      lifestyle_suggestions = JNull,
      next_steps = JList [JStr ''Rest'', JStr ''Stay hydrated'', JStr ''Monitor symptoms''],
      metadata = []\<rparr>"

text \<open>
  A reply whose \<open>lifestyle_suggestions\<close> is a single text, not a list of texts.
\<close>

definition reply_lifestyle_text :: dict where
  "reply_lifestyle_text = [(''lifestyle_suggestions'', JStr ''rest more'')]"

section \<open>Input validation\<close>

lemma strip_Nil_iff: "strip s = [] \<longleftrightarrow> (\<forall>c\<in>set s. isspace c)"
proof
  assume a: "strip s = []"
  show "\<forall>c\<in>set s. isspace c"
  proof (rule ccontr)
    assume "\<not> (\<forall>c\<in>set s. isspace c)"
    then have ne: "dropWhile isspace s \<noteq> []" by (simp add: dropWhile_eq_Nil_conv)
    then have "\<not> isspace (hd (dropWhile isspace s))" by (rule hd_dropWhile)
    moreover have "hd (dropWhile isspace s) \<in> set (rev (dropWhile isspace s))"
      using ne by simp
    ultimately have "dropWhile isspace (rev (dropWhile isspace s)) \<noteq> []"
      by (auto simp: dropWhile_eq_Nil_conv)
    with a show False by (simp add: strip_def)
  qed
next
  assume "\<forall>c\<in>set s. isspace c"
  then have h: "dropWhile isspace s = []" by (simp only: dropWhile_eq_Nil_conv)
  show "strip s = []" unfolding strip_def h by simp
qed

lemma validate_symptoms_None_iff:
  "validate_symptoms s = None \<longleftrightarrow>
     \<not> (s = [] \<or> (\<forall>c\<in>set s. isspace c) \<or> length (strip s) < 3 \<or> 2000 < length s)"
  by (auto simp: validate_symptoms_def strip_Nil_iff)

lemma validate_symptoms_Some:
  "validate_symptoms s = Some e \<Longrightarrow> \<exists>m. e = ValidationError m"
  by (auto simp: validate_symptoms_def split: if_splits)

text \<open>
  Claim C2. A symptom text that is empty, consists of whitespace only, has fewer than 3
  characters once stripped, or has more than 2000 characters makes \<open>analyze_symptoms\<close>
  raise \<open>ValidationError\<close> with no call made to fact retrieval or to the model gateway.
  Every other text passes validation, and both calls are then made.
\<close>

theorem invalid_symptoms_rejected_before_any_call:
  "(s = [] \<or> (\<forall>c\<in>set s. isspace c) \<or> length (strip s) < 3 \<or> 2000 < length s
      \<longrightarrow> (\<exists>m. analyze_symptoms gemini self_top_k s prompt_type include_lifestyle
                 = ([], Inl (ValidationError m))))
   \<and> (\<not> (s = [] \<or> (\<forall>c\<in>set s. isspace c) \<or> length (strip s) < 3 \<or> 2000 < length s)
      \<longrightarrow> validate_symptoms s = None
          \<and> fst (analyze_symptoms gemini self_top_k s prompt_type include_lifestyle)
              = [FactRetrieval, ModelCall])"
proof (intro conjI impI)
  assume "s = [] \<or> (\<forall>c\<in>set s. isspace c) \<or> length (strip s) < 3 \<or> 2000 < length s"
  then have "validate_symptoms s \<noteq> None" by (simp add: validate_symptoms_None_iff)
  then obtain e where e: "validate_symptoms s = Some e" by auto
  then obtain m where "e = ValidationError m" using validate_symptoms_Some by blast
  with e show "\<exists>m. analyze_symptoms gemini self_top_k s prompt_type include_lifestyle
                 = ([], Inl (ValidationError m))"
    by (simp add: analyze_symptoms_def)
next
  assume "\<not> (s = [] \<or> (\<forall>c\<in>set s. isspace c) \<or> length (strip s) < 3 \<or> 2000 < length s)"
  then show v: "validate_symptoms s = None" by (simp add: validate_symptoms_None_iff)
  then show "fst (analyze_symptoms gemini self_top_k s prompt_type include_lifestyle)
              = [FactRetrieval, ModelCall]"
    by (simp add: analyze_symptoms_def Let_def split: sum.splits)
qed

theorem invalid_symptoms_rejected_witness:
  "list_all isspace '' ''
   \<and> (\<exists>m. analyze_symptoms (raising (OtherException ''unreachable'')) 5 '' '' ''zero'' False
           = ([], Inl (ValidationError m)))
   \<and> ''fever'' \<noteq> [] \<and> \<not> list_all isspace ''fever'' \<and> \<not> length (strip ''fever'') < 3
   \<and> \<not> 2000 < length ''fever''
   \<and> validate_symptoms ''fever'' = None
   \<and> fst (analyze_symptoms (raising (OtherException ''down'')) 5 ''fever'' ''zero'' False)
       = [FactRetrieval, ModelCall]"
proof -
  have blank: "list_all isspace '' ''" by (simp add: isspace_def)
  have ok: "''fever'' \<noteq> []" "\<not> list_all isspace ''fever''" "\<not> length (strip ''fever'') < 3"
    "\<not> 2000 < length ''fever''"
    by (simp_all add: isspace_def strip_def)
  from blank
    invalid_symptoms_rejected_before_any_call
      [of "'' ''" "raising (OtherException ''unreachable'')" 5 "''zero''" False]
  have "\<exists>m. analyze_symptoms (raising (OtherException ''unreachable'')) 5 '' '' ''zero'' False
           = ([], Inl (ValidationError m))"
    unfolding list_all_iff by blast
  moreover from ok
    invalid_symptoms_rejected_before_any_call
      [of "''fever''" "raising (OtherException ''down'')" 5 "''zero''" False]
  have "validate_symptoms ''fever'' = None
   \<and> fst (analyze_symptoms (raising (OtherException ''down'')) 5 ''fever'' ''zero'' False)
       = [FactRetrieval, ModelCall]"
    unfolding list_all_iff by blast
  ultimately show ?thesis using blank ok by blast
qed

section \<open>The safety net when the gateway raises\<close>

text \<open>
  Claim C3. When the gateway call raises, \<open>analyze_symptoms\<close> returns a result with
  exactly one condition, named "Analysis Unavailable", of low confidence and moderate
  urgency; \<open>flagged\<close> is the verdict of the urgent-keyword check; \<open>urgency_level\<close> is
  Urgent when that check fired and Moderate otherwise; the metadata hold the text of
  the exception under the key \<open>error\<close>.
\<close>

theorem gateway_error_gives_fallback_result:
  assumes "validate_symptoms s = None"
    and "gemini s (retrieve_relevant_facts self_top_k s None) prompt_type include_lifestyle
           = Inl e"
  shows "\<exists>r c. snd (analyze_symptoms gemini self_top_k s prompt_type include_lifestyle) = Inr r
           \<and> conditions r = [c]
           \<and> name c = JStr ''Analysis Unavailable'' \<and> confidence c = LOW \<and> urgency c = MODERATE
           \<and> flagged r = JBool (check_urgent_keywords s)
           \<and> urgency_level r = (if check_urgent_keywords s then URGENT else MODERATE)
           \<and> metadata r = [(''error'', JStr (str_error e))]"
  using assms by (simp add: analyze_symptoms_def Let_def)

theorem gateway_error_gives_fallback_result_witness:
  "validate_symptoms ''severe chest pain and can't breathe'' = None
   \<and> raising (GeminiAPIError ''timed out'') ''severe chest pain and can't breathe''
        (retrieve_relevant_facts 5 ''severe chest pain and can't breathe'' None) ''zero'' False
       = Inl (GeminiAPIError ''timed out'')
   \<and> (\<exists>r c. snd (analyze_symptoms (raising (GeminiAPIError ''timed out'')) 5
                   ''severe chest pain and can't breathe'' ''zero'' False) = Inr r
           \<and> conditions r = [c]
           \<and> name c = JStr ''Analysis Unavailable'' \<and> confidence c = LOW \<and> urgency c = MODERATE
           \<and> flagged r = JBool True
           \<and> urgency_level r = URGENT
           \<and> metadata r = [(''error'', JStr ''timed out'')])"
proof -
  have v: "validate_symptoms ''severe chest pain and can't breathe'' = None" by code_simp
  have u: "check_urgent_keywords ''severe chest pain and can't breathe''" by code_simp
  have g: "raising (GeminiAPIError ''timed out'') ''severe chest pain and can't breathe''
     (retrieve_relevant_facts 5 ''severe chest pain and can't breathe'' None) ''zero'' False
       = Inl (GeminiAPIError ''timed out'')"
    by (simp add: raising_def)
  show ?thesis
    using gateway_error_gives_fallback_result
      [where gemini = "raising (GeminiAPIError ''timed out'')" and self_top_k = 5
         and prompt_type = "''zero''" and include_lifestyle = False, OF v g] u v g
    by simp
qed

section \<open>Merging the rule-based flag into the parsed reply\<close>

text \<open>
  Claim C6. Let the gateway return a reply that \<open>parse_llm_response\<close> turns into \<open>p\<close>.
  If the urgent-keyword check fired and \<open>p\<close> is not flagged, the result is flagged and
  its urgency level is Urgent when that of \<open>p\<close> was Moderate and that of \<open>p\<close> otherwise
  (Critical and Low stay). If the check did not fire or \<open>p\<close> is flagged already, flag
  and urgency level are those of \<open>p\<close>.
\<close>

theorem rule_flag_merge:
  assumes "validate_symptoms s = None"
    and "gemini s (retrieve_relevant_facts self_top_k s None) prompt_type include_lifestyle
           = Inr reply"
    and "parse_llm_response reply = Inr p"
  shows "\<exists>r. snd (analyze_symptoms gemini self_top_k s prompt_type include_lifestyle) = Inr r
     \<and> (check_urgent_keywords s \<and> \<not> truthy (flagged p)
          \<longrightarrow> flagged r = JBool True
              \<and> urgency_level r = (if urgency_level p = MODERATE then URGENT else urgency_level p))
     \<and> (\<not> check_urgent_keywords s \<or> truthy (flagged p)
          \<longrightarrow> flagged r = flagged p \<and> urgency_level r = urgency_level p)"
  using assms by (simp add: analyze_symptoms_def Let_def)

theorem rule_flag_merge_witness:
  "validate_symptoms ''severe chest pain'' = None
   \<and> replying [(''is_urgent'', JBool False), (''urgency_level'', JStr ''Critical'')]
        ''severe chest pain'' (retrieve_relevant_facts 5 ''severe chest pain'' None) ''zero'' False
       = Inr [(''is_urgent'', JBool False), (''urgency_level'', JStr ''Critical'')]
   \<and> parse_llm_response [(''is_urgent'', JBool False), (''urgency_level'', JStr ''Critical'')]
       = Inr \<lparr>conditions = [], flagged = JBool False, urgency_level = CRITICAL,
               disclaimer = MEDICAL_DISCLAIMER, lifestyle_suggestions = JNull,
               next_steps = JList [],
               metadata = [(''source'', JStr ''gemini_ai''), (''conditions_count'', JInt 0)]\<rparr>
   \<and> check_urgent_keywords ''severe chest pain''
   \<and> (\<exists>r. snd (analyze_symptoms
                  (replying [(''is_urgent'', JBool False), (''urgency_level'', JStr ''Critical'')])
                  5 ''severe chest pain'' ''zero'' False) = Inr r
          \<and> flagged r = JBool True \<and> urgency_level r = CRITICAL)"
proof -
  let ?reply = "[(''is_urgent'', JBool False), (''urgency_level'', JStr ''Critical'')]"
  let ?p = "\<lparr>conditions = [], flagged = JBool False, urgency_level = CRITICAL,
               disclaimer = MEDICAL_DISCLAIMER, lifestyle_suggestions = JNull,
               next_steps = JList [],
               metadata = [(''source'', JStr ''gemini_ai''), (''conditions_count'', JInt 0)]\<rparr>"
  have v: "validate_symptoms ''severe chest pain'' = None" by code_simp
  have u: "check_urgent_keywords ''severe chest pain''" by code_simp
  have g: "replying ?reply ''severe chest pain''
             (retrieve_relevant_facts 5 ''severe chest pain'' None) ''zero'' False = Inr ?reply"
    by (simp add: replying_def)
  have p: "parse_llm_response ?reply = Inr ?p"
    by (simp add: parse_llm_response_def py_get_def)
  show ?thesis
    using rule_flag_merge
      [where gemini = "replying ?reply" and self_top_k = 5 and prompt_type = "''zero''"
         and include_lifestyle = False, OF v g p] u v g p
    by simp
qed

section \<open>Assembling the result from the reply\<close>

lemma parse_conditions_Inr:
  "parse_conditions es = Inr cs \<longleftrightarrow> list_all2 (\<lambda>e c. parse_condition e = Inr c) es cs"
proof (induction es arbitrary: cs)
  case Nil
  then show ?case by auto
next
  case (Cons e es)
  show ?case
  proof (cases "parse_condition e")
    case (Inl err)
    then show ?thesis by (auto simp: list_all2_Cons1)
  next
    case (Inr c)
    then show ?thesis
      using Cons.IH by (cases "parse_conditions es") (auto simp: list_all2_Cons1)
  qed
qed

lemma parse_conditions_dicts:
  "\<forall>e\<in>set es. \<exists>d. e = JDict d \<Longrightarrow> \<exists>cs. parse_conditions es = Inr cs"
proof (induction es)
  case Nil
  then show ?case by simp
next
  case (Cons e es)
  then obtain d cs where "e = JDict d" "parse_conditions es = Inr cs" by auto
  then show ?case by simp
qed

lemma first_urgent_None:
  "first_urgent cs = None \<longleftrightarrow> (\<forall>c\<in>set cs. urgency c \<notin> {CRITICAL, URGENT})"
  by (induction cs) auto

lemma first_urgent_Some:
  "first_urgent cs = Some u \<Longrightarrow>
     \<exists>pre c post. cs = pre @ c # post \<and> (\<forall>p\<in>set pre. urgency p \<notin> {CRITICAL, URGENT})
        \<and> urgency c \<in> {CRITICAL, URGENT} \<and> u = urgency c"
proof (induction cs)
  case Nil
  then show ?case by simp
next
  case (Cons a cs)
  show ?case
  proof (cases "urgency a \<in> {CRITICAL, URGENT}")
    case True
    with Cons.prems have "u = urgency a" by auto
    with True have "a # cs = [] @ a # cs \<and> (\<forall>p\<in>set []. urgency p \<notin> {CRITICAL, URGENT})
        \<and> urgency a \<in> {CRITICAL, URGENT} \<and> u = urgency a" by simp
    then show ?thesis by blast
  next
    case False
    with Cons.prems have "first_urgent cs = Some u" by auto
    from Cons.IH [OF this] obtain pre c post where
      h: "cs = pre @ c # post" "\<forall>p\<in>set pre. urgency p \<notin> {CRITICAL, URGENT}"
         "urgency c \<in> {CRITICAL, URGENT}" "u = urgency c" by blast
    with False have "a # cs = (a # pre) @ c # post
        \<and> (\<forall>p\<in>set (a # pre). urgency p \<notin> {CRITICAL, URGENT})
        \<and> urgency c \<in> {CRITICAL, URGENT} \<and> u = urgency c" by simp
    then show ?thesis by blast
  qed
qed

lemma first_urgent_range: "first_urgent cs = Some u \<Longrightarrow> u \<in> {CRITICAL, URGENT}"
  using first_urgent_Some by blast

lemma list_all2_pick:
  "list_all2 P xs ys \<Longrightarrow> x \<in> set xs \<Longrightarrow> \<exists>y\<in>set ys. P x y"
  by (induction rule: list_all2_induct) auto

lemma parse_condition_urgency:
  "parse_condition (JDict d) = Inr c \<Longrightarrow>
     urgency c = (case UrgencyLevel_of (py_get d ''urgency'' (JStr ''Moderate'')) of
                    Some u \<Rightarrow> u | None \<Rightarrow> MODERATE)"
  by auto

text \<open>What a parsed reply's flag and urgency level are, by the reply's own \<open>is_urgent\<close>.\<close>

lemma parse_llm_response_flag:
  assumes "parse_llm_response reply = Inr p"
  shows "(truthy (py_get reply ''is_urgent'' (JBool False))
            \<longrightarrow> flagged p = py_get reply ''is_urgent'' (JBool False)
                \<and> urgency_level p =
                    (case UrgencyLevel_of (py_get reply ''urgency_level'' (JStr ''Moderate'')) of
                       Some u \<Rightarrow> u | None \<Rightarrow> MODERATE))
       \<and> (\<not> truthy (py_get reply ''is_urgent'' (JBool False))
            \<longrightarrow> (truthy (flagged p) \<longrightarrow> urgency_level p \<in> {CRITICAL, URGENT})
               \<and> (\<not> truthy (flagged p) \<longrightarrow> urgency_level p =
                    (case UrgencyLevel_of (py_get reply ''urgency_level'' (JStr ''Moderate'')) of
                       Some u \<Rightarrow> u | None \<Rightarrow> MODERATE)))"
proof -
  from assms obtain items conds where
    p: "p = (let is_urgent = py_get reply ''is_urgent'' (JBool False);
              level = (case UrgencyLevel_of
                              (py_get reply ''urgency_level'' (JStr ''Moderate'')) of
                         Some u \<Rightarrow> u | None \<Rightarrow> MODERATE);
              found = (if \<not> truthy is_urgent then first_urgent conds else None)
          in \<lparr>conditions = conds,
             flagged = (case found of Some u \<Rightarrow> JBool True | None \<Rightarrow> is_urgent),
             urgency_level = (case found of Some u \<Rightarrow> u | None \<Rightarrow> level),
             disclaimer = MEDICAL_DISCLAIMER,
             lifestyle_suggestions = py_get reply ''lifestyle_suggestions'' JNull,
             next_steps = py_get reply ''next_steps'' (JList []),
             metadata = [(''source'', JStr ''gemini_ai''),
                         (''conditions_count'', JInt (int (length conds)))]\<rparr>)"
    by (auto simp: parse_llm_response_def Let_def split: sum.splits)
  show ?thesis
  proof (cases "first_urgent conds")
    case None
    then show ?thesis by (simp add: p Let_def)
  next
    case (Some u)
    with first_urgent_range [OF Some] show ?thesis by (auto simp: p Let_def)
  qed
qed

text \<open>
  Claim C5 (amended). Let the reply's \<open>is_urgent\<close> be false (or absent, or any value that
  tests false) and its \<open>conditions\<close> be a list of maps, one of which has urgency
  "Critical" or "Urgent". Then \<open>parse_llm_response\<close> returns a result that is flagged
  and whose urgency level is that of the first condition, in list order, that is
  Critical or Urgent. So the level is Critical exactly when that first one is Critical.
\<close>

theorem first_urgent_condition_sets_flag_and_level:
  assumes not_urgent: "\<not> truthy (py_get response ''is_urgent'' (JBool False))"
    and entries: "py_get response ''conditions'' (JList []) = JList entries"
    and maps: "\<forall>e\<in>set entries. \<exists>d. e = JDict d"
    and some_urgent: "\<exists>d. JDict d \<in> set entries \<and>
           UrgencyLevel_of (py_get d ''urgency'' (JStr ''Moderate''))
             \<in> {Some CRITICAL, Some URGENT}"
  shows "\<exists>r pre c post. parse_llm_response response = Inr r
           \<and> flagged r = JBool True
           \<and> list_all2 (\<lambda>e c. parse_condition e = Inr c) entries (conditions r)
           \<and> conditions r = pre @ c # post
           \<and> (\<forall>p\<in>set pre. urgency p \<notin> {CRITICAL, URGENT})
           \<and> urgency c \<in> {CRITICAL, URGENT}
           \<and> urgency_level r = urgency c"
proof -
  from parse_conditions_dicts [OF maps] obtain cs where cs: "parse_conditions entries = Inr cs"
    by blast
  then have all2: "list_all2 (\<lambda>e c. parse_condition e = Inr c) entries cs"
    by (simp add: parse_conditions_Inr)
  from some_urgent obtain d where d: "JDict d \<in> set entries"
    "UrgencyLevel_of (py_get d ''urgency'' (JStr ''Moderate'')) \<in> {Some CRITICAL, Some URGENT}"
    by blast
  from list_all2_pick [OF all2 d(1)] obtain c0 where
    c0: "c0 \<in> set cs" "parse_condition (JDict d) = Inr c0"
    by blast
  from parse_condition_urgency [OF c0(2)] d(2) have "urgency c0 \<in> {CRITICAL, URGENT}" by auto
  with c0(1) have "first_urgent cs \<noteq> None" by (auto simp: first_urgent_None)
  then obtain u where u: "first_urgent cs = Some u" by auto
  from first_urgent_Some [OF u] obtain pre c post where
    h: "cs = pre @ c # post" "\<forall>p\<in>set pre. urgency p \<notin> {CRITICAL, URGENT}"
       "urgency c \<in> {CRITICAL, URGENT}" "u = urgency c" by blast
  define r where "r = \<lparr>conditions = cs, flagged = JBool True, urgency_level = u,
       disclaimer = MEDICAL_DISCLAIMER,
       lifestyle_suggestions = py_get response ''lifestyle_suggestions'' JNull,
       next_steps = py_get response ''next_steps'' (JList []),
       metadata = [(''source'', JStr ''gemini_ai''),
                   (''conditions_count'', JInt (int (length cs)))]\<rparr>"
  have "parse_llm_response response = Inr r"
    using not_urgent entries cs u by (simp add: parse_llm_response_def r_def Let_def)
  moreover have "flagged r = JBool True" "conditions r = cs" "urgency_level r = u"
    by (simp_all add: r_def)
  ultimately show ?thesis using all2 h by blast
qed

text \<open>
  The reply \<open>reply_urgent_then_critical\<close> meets the hypotheses, and its result takes
  the level of the urgent condition that comes first.
\<close>

theorem first_urgent_condition_witness:
  "\<not> truthy (py_get reply_urgent_then_critical ''is_urgent'' (JBool False))
   \<and> py_get reply_urgent_then_critical ''conditions'' (JList [])
       = JList [JDict [(''name'', JStr ''Migraine''), (''urgency'', JStr ''Urgent'')],
                JDict [(''name'', JStr ''Stroke''), (''urgency'', JStr ''Critical'')]]
   \<and> UrgencyLevel_of (py_get [(''name'', JStr ''Stroke''), (''urgency'', JStr ''Critical'')]
                         ''urgency'' (JStr ''Moderate'')) = Some CRITICAL
   \<and> (\<exists>r pre c post. parse_llm_response reply_urgent_then_critical = Inr r
           \<and> flagged r = JBool True
           \<and> conditions r = pre @ c # post
           \<and> list_all (\<lambda>p. urgency p \<notin> {CRITICAL, URGENT}) pre
           \<and> urgency c \<in> {CRITICAL, URGENT}
           \<and> urgency_level r = urgency c)"
proof -
  let ?es = "[JDict [(''name'', JStr ''Migraine''), (''urgency'', JStr ''Urgent'')],
              JDict [(''name'', JStr ''Stroke''), (''urgency'', JStr ''Critical'')]]"
  have a: "\<not> truthy (py_get reply_urgent_then_critical ''is_urgent'' (JBool False))"
    by (simp add: reply_urgent_then_critical_def py_get_def)
  have b: "py_get reply_urgent_then_critical ''conditions'' (JList []) = JList ?es"
    by (simp add: reply_urgent_then_critical_def py_get_def)
  have c: "\<forall>e\<in>set ?es. \<exists>d. e = JDict d" by simp
  have d0: "UrgencyLevel_of (py_get [(''name'', JStr ''Stroke''), (''urgency'', JStr ''Critical'')]
                         ''urgency'' (JStr ''Moderate'')) = Some CRITICAL"
    by (simp add: py_get_def)
  then have d: "\<exists>d. JDict d \<in> set ?es \<and>
           UrgencyLevel_of (py_get d ''urgency'' (JStr ''Moderate''))
             \<in> {Some CRITICAL, Some URGENT}"
    by (intro exI [of _ "[(''name'', JStr ''Stroke''), (''urgency'', JStr ''Critical'')]"]) simp
  from first_urgent_condition_sets_flag_and_level [OF a b c d]
  have "\<exists>r pre c post. parse_llm_response reply_urgent_then_critical = Inr r
           \<and> flagged r = JBool True
           \<and> conditions r = pre @ c # post
           \<and> list_all (\<lambda>p. urgency p \<notin> {CRITICAL, URGENT}) pre
           \<and> urgency c \<in> {CRITICAL, URGENT}
           \<and> urgency_level r = urgency c"
    unfolding list_all_iff by blast
  with a b d0 show ?thesis by blast
qed

text \<open>
  As stated, the claim also says that a reply with a false \<open>is_urgent\<close> and a critical
  condition gets the level Critical. \<open>reply_urgent_then_critical\<close> is such a reply, and
  its level is Urgent.
\<close>

theorem critical_condition_level_counterexample:
  "py_get reply_urgent_then_critical ''is_urgent'' (JBool False) = JBool False
   \<and> py_get reply_urgent_then_critical ''conditions'' (JList [])
       = JList [JDict [(''name'', JStr ''Migraine''), (''urgency'', JStr ''Urgent'')],
                JDict [(''name'', JStr ''Stroke''), (''urgency'', JStr ''Critical'')]]
   \<and> map_sum str_error flagged (parse_llm_response reply_urgent_then_critical)
       = Inr (JBool True)
   \<and> map_sum str_error (map urgency \<circ> conditions)
        (parse_llm_response reply_urgent_then_critical) = Inr [URGENT, CRITICAL]
   \<and> map_sum str_error urgency_level (parse_llm_response reply_urgent_then_critical)
       = Inr URGENT
   \<and> URGENT \<noteq> CRITICAL"
  by (simp add: reply_urgent_then_critical_def py_get_def parse_llm_response_def)

section \<open>The flag and the urgency level of returned results\<close>

text \<open>The two ways in which \<open>analyze_symptoms\<close> returns a result.\<close>

lemma analyze_symptoms_result_cases:
  assumes "snd (analyze_symptoms gemini self_top_k s prompt_type include_lifestyle) = Inr r"
  shows "validate_symptoms s = None \<and>
     ((\<exists>e. gemini s (retrieve_relevant_facts self_top_k s None) prompt_type include_lifestyle
              = Inl e
           \<and> flagged r = JBool (check_urgent_keywords s)
           \<and> urgency_level r = (if check_urgent_keywords s then URGENT else MODERATE))
      \<or> (\<exists>reply p.
            gemini s (retrieve_relevant_facts self_top_k s None) prompt_type include_lifestyle
              = Inr reply
          \<and> parse_llm_response reply = Inr p
          \<and> flagged r = (if check_urgent_keywords s \<and> \<not> truthy (flagged p) then JBool True
                         else flagged p)
          \<and> urgency_level r =
              (if check_urgent_keywords s \<and> \<not> truthy (flagged p)
               then (if urgency_level p = MODERATE then URGENT else urgency_level p)
               else urgency_level p)))"
proof (cases "validate_symptoms s")
  case (Some e)
  with assms show ?thesis by (simp add: analyze_symptoms_def)
next
  case None
  show ?thesis
  proof (cases "gemini s (retrieve_relevant_facts self_top_k s None) prompt_type include_lifestyle")
    case (Inl e)
    with None assms show ?thesis by (auto simp: analyze_symptoms_def Let_def)
  next
    case (Inr reply)
    show ?thesis
    proof (cases "parse_llm_response reply")
      case (Inl e)
      with None Inr assms show ?thesis by (simp add: analyze_symptoms_def Let_def)
    next
      case p: (Inr p)
      with None Inr assms show ?thesis by (auto simp: analyze_symptoms_def Let_def)
    qed
  qed
qed

text \<open>
  Whenever \<open>analyze_symptoms\<close> returns a result for a text in which the urgent-keyword
  check fires, the result is flagged.
\<close>

lemma urgent_text_result_is_flagged:
  assumes "check_urgent_keywords s"
    and "snd (analyze_symptoms gemini self_top_k s prompt_type include_lifestyle) = Inr r"
  shows "truthy (flagged r)"
  using analyze_symptoms_result_cases [OF assms(2)] assms(1) by auto

text \<open>
  Claim C4 (amended). For every result that \<open>analyze_symptoms\<close> returns: if it is
  flagged, its urgency level is Critical or Urgent, or else the gateway returned a reply
  and the level is the one that reply states itself (Moderate when it states none or
  an unknown one), and either the reply's own \<open>is_urgent\<close> was true, or only the
  urgent-keyword check fired and the level is Low.
\<close>

theorem flagged_result_urgency_level:
  assumes res: "snd (analyze_symptoms gemini self_top_k s prompt_type include_lifestyle) = Inr r"
    and fl: "truthy (flagged r)"
  shows "urgency_level r \<in> {CRITICAL, URGENT}
     \<or> (\<exists>reply.
           gemini s (retrieve_relevant_facts self_top_k s None) prompt_type include_lifestyle
             = Inr reply
         \<and> urgency_level r =
             (case UrgencyLevel_of (py_get reply ''urgency_level'' (JStr ''Moderate'')) of
                Some u \<Rightarrow> u | None \<Rightarrow> MODERATE)
         \<and> (truthy (py_get reply ''is_urgent'' (JBool False))
            \<or> (check_urgent_keywords s \<and> urgency_level r = LOW_U)))"
proof -
  from analyze_symptoms_result_cases [OF res]
  consider (raised) e where
      "gemini s (retrieve_relevant_facts self_top_k s None) prompt_type include_lifestyle = Inl e"
      "flagged r = JBool (check_urgent_keywords s)"
      "urgency_level r = (if check_urgent_keywords s then URGENT else MODERATE)"
    | (replied) reply p where
      "gemini s (retrieve_relevant_facts self_top_k s None) prompt_type include_lifestyle
         = Inr reply"
      "parse_llm_response reply = Inr p"
      "flagged r = (if check_urgent_keywords s \<and> \<not> truthy (flagged p) then JBool True
                    else flagged p)"
      "urgency_level r =
              (if check_urgent_keywords s \<and> \<not> truthy (flagged p)
               then (if urgency_level p = MODERATE then URGENT else urgency_level p)
               else urgency_level p)"
    by blast
  then show ?thesis
  proof cases
    case raised
    with fl show ?thesis by (auto split: if_splits)
  next
    case replied
    let ?stated = "case UrgencyLevel_of (py_get reply ''urgency_level'' (JStr ''Moderate'')) of
                Some u \<Rightarrow> u | None \<Rightarrow> MODERATE"
    note pf = parse_llm_response_flag [OF replied(2)]
    show ?thesis
    proof (cases "truthy (py_get reply ''is_urgent'' (JBool False))")
      case True
      with pf have "truthy (flagged p)" "urgency_level p = ?stated" by auto
      with replied True show ?thesis by auto
    next
      case False
      show ?thesis
      proof (cases "truthy (flagged p)")
        case True
        with False pf have "urgency_level p \<in> {CRITICAL, URGENT}" by blast
        with True replied show ?thesis by auto
      next
        case nf: False
        with False pf have st: "urgency_level p = ?stated" by blast
        from nf fl replied(3) have rule: "check_urgent_keywords s" by (auto split: if_splits)
        show ?thesis
        proof (cases "urgency_level p")
          case LOW_U
          with nf rule replied st show ?thesis by auto
        qed (use nf rule replied in auto)
      qed
    qed
  qed
qed

theorem flagged_result_urgency_level_witness:
  "snd (analyze_symptoms
          (replying [(''is_urgent'', JBool False), (''urgency_level'', JStr ''Low'')])
          5 ''severe chest pain'' ''zero'' False)
     = Inr \<lparr>conditions = [], flagged = JBool True, urgency_level = LOW_U,
             disclaimer = MEDICAL_DISCLAIMER, lifestyle_suggestions = JNull,
             next_steps = JList [],
             metadata = [(''source'', JStr ''gemini_ai''), (''conditions_count'', JInt 0),
                         (''rule_based_urgent'', JBool True),
                         (''medical_facts_count'', JInt 5)]\<rparr>
   \<and> truthy (JBool True)
   \<and> (LOW_U \<in> {CRITICAL, URGENT}
      \<or> (\<exists>reply.
           replying [(''is_urgent'', JBool False), (''urgency_level'', JStr ''Low'')]
             ''severe chest pain'' (retrieve_relevant_facts 5 ''severe chest pain'' None)
             ''zero'' False = Inr reply
         \<and> LOW_U =
             (case UrgencyLevel_of (py_get reply ''urgency_level'' (JStr ''Moderate'')) of
                Some u \<Rightarrow> u | None \<Rightarrow> MODERATE)
         \<and> (truthy (py_get reply ''is_urgent'' (JBool False))
            \<or> (check_urgent_keywords ''severe chest pain'' \<and> LOW_U = LOW_U))))"
proof -
  let ?g = "replying [(''is_urgent'', JBool False), (''urgency_level'', JStr ''Low'')]"
  let ?r = "\<lparr>conditions = [], flagged = JBool True, urgency_level = LOW_U,
             disclaimer = MEDICAL_DISCLAIMER, lifestyle_suggestions = JNull,
             next_steps = JList [],
             metadata = [(''source'', JStr ''gemini_ai''), (''conditions_count'', JInt 0),
                         (''rule_based_urgent'', JBool True),
                         (''medical_facts_count'', JInt 5)]\<rparr>"
  have res: "snd (analyze_symptoms ?g 5 ''severe chest pain'' ''zero'' False) = Inr ?r"
    by code_simp
  have fl: "truthy (flagged ?r)" by simp
  from flagged_result_urgency_level [OF res fl] res show ?thesis by simp
qed

text \<open>
  As stated, the claim allows a flagged result below Urgent only when the rule-based
  check alone triggered. Here the check does not fire, the reply says \<open>is_urgent\<close> and
  states no level, and the result is flagged with the level Moderate.
\<close>

theorem flagged_moderate_counterexample:
  "\<not> check_urgent_keywords ''I have a mild headache''
   \<and> snd (analyze_symptoms (replying [(''is_urgent'', JBool True)]) 5
            ''I have a mild headache'' ''zero'' False)
     = Inr \<lparr>conditions = [], flagged = JBool True, urgency_level = MODERATE,
             disclaimer = MEDICAL_DISCLAIMER, lifestyle_suggestions = JNull,
             next_steps = JList [],
             metadata = [(''source'', JStr ''gemini_ai''), (''conditions_count'', JInt 0),
                         (''rule_based_urgent'', JBool False),
                         (''medical_facts_count'', JInt 2)]\<rparr>
   \<and> MODERATE \<notin> {CRITICAL, URGENT}"
  by code_simp

section \<open>Replies that are not shaped as the prompt asks\<close>

text \<open>
  Claim C1, at two replies the gateway can return: the text
  \<open>{"conditions": null}\<close> and the text \<open>{"conditions": ["Heart attack"]}\<close> both decode
  to a dictionary. The symptom text passes validation and the urgent-keyword check
  fires, but \<open>parse_llm_response\<close> raises, outside the \<open>try\<close> block of
  \<open>analyze_symptoms\<close>, and no result is returned.
\<close>

theorem urgent_text_no_result_on_malformed_reply:
  "validate_symptoms ''I have severe chest pain'' = None
   \<and> check_urgent_keywords ''I have severe chest pain''
   \<and> analyze_symptoms (replying [(''conditions'', JNull)]) 5
        ''I have severe chest pain'' ''zero'' False
       = ([FactRetrieval, ModelCall],
          Inl (TypeError (quoted ''NoneType'' @ '' object is not iterable'')))
   \<and> analyze_symptoms (replying [(''conditions'', JList [JStr ''Heart attack''])]) 5
        ''I have severe chest pain'' ''zero'' False
       = ([FactRetrieval, ModelCall],
          Inl (AttributeError (quoted ''str'' @ '' object has no attribute '' @ quoted ''get'')))"
  by code_simp

section \<open>The retry loop of the gateway\<close>

lemma snd_sleep: "snd (sleep d r) = snd r"
  by (simp add: sleep_def)

text \<open>
  While the attempts before the last one fail, in either way, the loop goes on; so its
  outcome is that of the last attempt.
\<close>

lemma attempts_reach_last:
  assumes "i < n"
    and "\<forall>j. i \<le> j \<and> j < n - 1 \<longrightarrow> (\<exists>e. try_body model loads j = Inl e)"
  shows "snd (attempts (int n) model loads symptom_text [i ..< n])
       = snd (attempts (int n) model loads symptom_text [n - 1])"
  using assms
proof (induction "n - 1 - i" arbitrary: i)
  case 0
  then have "i = n - 1" by simp
  with 0 have "[i ..< n] = [n - 1]" by (simp add: upt_conv_Cons)
  then show ?case by simp
next
  case (Suc k)
  then have lt: "i < n - 1" and ne: "int i \<noteq> int n - 1" by auto
  from Suc.prems have up: "[i ..< n] = i # [Suc i ..< n]" by (simp add: upt_conv_Cons)
  have ih: "snd (attempts (int n) model loads symptom_text [Suc i ..< n])
          = snd (attempts (int n) model loads symptom_text [n - 1])"
  proof (rule Suc.hyps(1))
    show "k = n - 1 - Suc i" using Suc.hyps(2) by simp
    show "Suc i < n" using lt by simp
    show "\<forall>j. Suc i \<le> j \<and> j < n - 1 \<longrightarrow> (\<exists>e. try_body model loads j = Inl e)"
      using Suc.prems(2) by auto
  qed
  from Suc.prems(2) lt obtain e where "try_body model loads i = Inl e" by blast
  with ne ih show ?case by (simp add: up snd_sleep)
qed

lemma gateway_outcome_is_last_attempt:
  assumes "0 < max_retries"
    and "\<forall>j < nat max_retries - 1. \<exists>e. try_body model loads j = Inl e"
  shows "snd (GeminiClient_analyze_symptoms max_retries model loads symptom_text)
       = snd (attempts max_retries model loads symptom_text [nat max_retries - 1])"
proof -
  from assms(1) have n: "int (nat max_retries) = max_retries" "0 < nat max_retries" by simp_all
  from attempts_reach_last [of 0 "nat max_retries" model loads symptom_text] n assms(2)
  show ?thesis by (simp add: GeminiClient_analyze_symptoms_def)
qed

text \<open>
  Claim C7. With at least one attempt allowed: if every attempt ends in a
  \<open>JSONDecodeError\<close>, the gateway returns the fallback reply instead of raising; if the
  attempts before the last fail in either way and the last one raises any other
  exception \<open>e\<close>, the gateway raises \<open>GeminiAPIError\<close> whose text holds the number of
  attempts and the text of \<open>e\<close>. The fallback reply has one condition "Unable to analyze"
  with confidence "Low" and urgency "Moderate", \<open>is_urgent\<close> false, three generic next
  steps and an empty list of lifestyle suggestions.
\<close>

theorem gateway_failure_asymmetry:
  assumes "0 < max_retries"
  shows "((\<forall>j < nat max_retries. \<exists>m. try_body model loads j = Inl (JSONDecodeError m))
          \<longrightarrow> snd (GeminiClient_analyze_symptoms max_retries model loads symptom_text)
                = Inr (create_fallback_response symptom_text))
       \<and> ((\<forall>j < nat max_retries - 1. \<exists>e'. try_body model loads j = Inl e')
           \<and> try_body model loads (nat max_retries - 1) = Inl e
           \<and> \<not> is_JSONDecodeError e
          \<longrightarrow> snd (GeminiClient_analyze_symptoms max_retries model loads symptom_text)
                = Inl (GeminiAPIError
                        (''Failed to get response from Gemini API after '' @ str_int max_retries @
                         '' attempts: '' @ str_error e)))
       \<and> (\<exists>d c. create_fallback_response symptom_text = JDict d
              \<and> py_get d ''conditions'' JNull = JList [JDict c]
              \<and> py_get c ''name'' JNull = JStr ''Unable to analyze''
              \<and> py_get c ''confidence'' JNull = JStr ''Low''
              \<and> py_get c ''urgency'' JNull = JStr ''Moderate''
              \<and> py_get d ''is_urgent'' JNull = JBool False
              \<and> py_get d ''next_steps'' JNull
                  = JList [JStr ''Consult a healthcare provider'', JStr ''Monitor symptoms'',
                           JStr ''Seek emergency care if symptoms worsen'']
              \<and> py_get d ''lifestyle_suggestions'' JNull = JList [])"
proof (intro conjI impI)
  from assms have last: "int (nat max_retries - 1) = max_retries - 1" by simp
  {
    assume all: "\<forall>j < nat max_retries. \<exists>m. try_body model loads j = Inl (JSONDecodeError m)"
    have "\<forall>j < nat max_retries - 1. \<exists>e. try_body model loads j = Inl e"
    proof (intro allI impI)
      fix j
      assume "j < nat max_retries - 1"
      then have "j < nat max_retries" by simp
      with all obtain m where "try_body model loads j = Inl (JSONDecodeError m)" by blast
      then show "\<exists>e. try_body model loads j = Inl e" by blast
    qed
    from gateway_outcome_is_last_attempt [OF assms this]
    have eq: "snd (GeminiClient_analyze_symptoms max_retries model loads symptom_text)
       = snd (attempts max_retries model loads symptom_text [nat max_retries - 1])" .
    from assms have "nat max_retries - 1 < nat max_retries" by simp
    with all obtain m where "try_body model loads (nat max_retries - 1) = Inl (JSONDecodeError m)"
      by blast
    with last eq
    show "snd (GeminiClient_analyze_symptoms max_retries model loads symptom_text)
                = Inr (create_fallback_response symptom_text)"
      by simp
  }
  {
    assume h: "(\<forall>j < nat max_retries - 1. \<exists>e'. try_body model loads j = Inl e')
           \<and> try_body model loads (nat max_retries - 1) = Inl e
           \<and> \<not> is_JSONDecodeError e"
    from gateway_outcome_is_last_attempt [OF assms conjunct1 [OF h]]
    have eq: "snd (GeminiClient_analyze_symptoms max_retries model loads symptom_text)
       = snd (attempts max_retries model loads symptom_text [nat max_retries - 1])" .
    with last h
    show "snd (GeminiClient_analyze_symptoms max_retries model loads symptom_text)
                = Inl (GeminiAPIError
                        (''Failed to get response from Gemini API after '' @ str_int max_retries @
                         '' attempts: '' @ str_error e))"
      by simp
  }
  show "\<exists>d c. create_fallback_response symptom_text = JDict d
              \<and> py_get d ''conditions'' JNull = JList [JDict c]
              \<and> py_get c ''name'' JNull = JStr ''Unable to analyze''
              \<and> py_get c ''confidence'' JNull = JStr ''Low''
              \<and> py_get c ''urgency'' JNull = JStr ''Moderate''
              \<and> py_get d ''is_urgent'' JNull = JBool False
              \<and> py_get d ''next_steps'' JNull
                  = JList [JStr ''Consult a healthcare provider'', JStr ''Monitor symptoms'',
                           JStr ''Seek emergency care if symptoms worsen'']
              \<and> py_get d ''lifestyle_suggestions'' JNull = JList []"
    by (simp add: create_fallback_response_def py_get_def)
qed

theorem gateway_failure_asymmetry_witness:
  "(0::int) < 3
   \<and> snd (GeminiClient_analyze_symptoms 3 (always_text ''Sorry, I cannot help.'') loads_rejects
            ''fever'')
       = Inr (create_fallback_response ''fever'')
   \<and> snd (GeminiClient_analyze_symptoms 3 (always_raises (OtherException ''timed out''))
            loads_rejects ''fever'')
       = Inl (GeminiAPIError ''Failed to get response from Gemini API after 3 attempts: timed out'')"
proof -
  have pos: "(0::int) < 3" by simp
  have a: "\<forall>j < nat 3. \<exists>m. try_body (always_text ''Sorry, I cannot help.'') loads_rejects j
                            = Inl (JSONDecodeError m)"
    by (simp add: try_body_def always_text_def loads_rejects_def)
  have b: "(\<forall>j < nat 3 - 1.
              \<exists>e'. try_body (always_raises (OtherException ''timed out'')) loads_rejects j = Inl e')
           \<and> try_body (always_raises (OtherException ''timed out'')) loads_rejects (nat 3 - 1)
               = Inl (OtherException ''timed out'')
           \<and> \<not> is_JSONDecodeError (OtherException ''timed out'')"
    by (simp add: try_body_def always_raises_def)
  have s3: "str_int 3 = ''3''" by (simp add: str_int_def)
  from gateway_failure_asymmetry
         [OF pos, where model = "always_text ''Sorry, I cannot help.''" and loads = loads_rejects
            and symptom_text = "''fever''"] a
  have "snd (GeminiClient_analyze_symptoms 3 (always_text ''Sorry, I cannot help.'')
               loads_rejects ''fever'') = Inr (create_fallback_response ''fever'')"
    by blast
  moreover
  from gateway_failure_asymmetry
         [OF pos, where model = "always_raises (OtherException ''timed out'')"
            and loads = loads_rejects and e = "OtherException ''timed out''"
            and symptom_text = "''fever''"] b
  have "snd (GeminiClient_analyze_symptoms 3 (always_raises (OtherException ''timed out''))
            loads_rejects ''fever'')
       = Inl (GeminiAPIError
                (''Failed to get response from Gemini API after '' @ str_int 3 @
                 '' attempts: '' @ str_error (OtherException ''timed out'')))"
    by blast
  ultimately show ?thesis by (simp add: s3)
qed

section \<open>The external representation of a result\<close>

text \<open>
  Claim C10 (amended). In the dictionary that \<open>to_dict\<close> makes, the key
  \<open>lifestyle_suggestions\<close> is always present and never null: its value is the field
  itself when the field tests true, and the empty list otherwise. So for a result whose
  field is \<open>None\<close> or a list, as the class declares it, the value is a list; \<open>None\<close>
  becomes the empty list, and a result with \<open>None\<close> and the same result with the empty
  list have the same dictionary. The value of \<open>possible_conditions\<close> is a list with one
  dictionary for each condition, in the same order, whose key \<open>condition\<close> holds the
  name of the condition.
\<close>

theorem to_dict_lifestyle_and_conditions:
  "(\<exists>v. map_of (to_dict r) ''lifestyle_suggestions'' = Some v \<and> v \<noteq> JNull)
   \<and> (truthy (lifestyle_suggestions r)
        \<longrightarrow> map_of (to_dict r) ''lifestyle_suggestions'' = Some (lifestyle_suggestions r))
   \<and> (\<not> truthy (lifestyle_suggestions r)
        \<longrightarrow> map_of (to_dict r) ''lifestyle_suggestions'' = Some (JList []))
   \<and> (lifestyle_suggestions r = JNull \<or> (\<exists>xs. lifestyle_suggestions r = JList xs)
        \<longrightarrow> (\<exists>ys. map_of (to_dict r) ''lifestyle_suggestions'' = Some (JList ys)))
   \<and> (lifestyle_suggestions r = JNull
        \<longrightarrow> map_of (to_dict r) ''lifestyle_suggestions'' = Some (JList []))
   \<and> to_dict (r\<lparr>lifestyle_suggestions := JNull\<rparr>)
       = to_dict (r\<lparr>lifestyle_suggestions := JList []\<rparr>)
   \<and> (\<exists>items. map_of (to_dict r) ''possible_conditions'' = Some (JList items)
         \<and> length items = length (conditions r)
         \<and> (\<forall>i < length (conditions r).
               \<exists>d. items ! i = JDict d \<and> map_of d ''condition'' = Some (name (conditions r ! i))))"
proof (intro conjI)
  show "\<exists>v. map_of (to_dict r) ''lifestyle_suggestions'' = Some v \<and> v \<noteq> JNull"
    by (auto simp: to_dict_def)
  show "truthy (lifestyle_suggestions r)
        \<longrightarrow> map_of (to_dict r) ''lifestyle_suggestions'' = Some (lifestyle_suggestions r)"
    by (simp add: to_dict_def)
  show "\<not> truthy (lifestyle_suggestions r)
        \<longrightarrow> map_of (to_dict r) ''lifestyle_suggestions'' = Some (JList [])"
    by (simp add: to_dict_def)
  show "lifestyle_suggestions r = JNull \<or> (\<exists>xs. lifestyle_suggestions r = JList xs)
        \<longrightarrow> (\<exists>ys. map_of (to_dict r) ''lifestyle_suggestions'' = Some (JList ys))"
    by (auto simp: to_dict_def)
  show "lifestyle_suggestions r = JNull
        \<longrightarrow> map_of (to_dict r) ''lifestyle_suggestions'' = Some (JList [])"
    by (simp add: to_dict_def)
  show "to_dict (r\<lparr>lifestyle_suggestions := JNull\<rparr>)
       = to_dict (r\<lparr>lifestyle_suggestions := JList []\<rparr>)"
    by (simp add: to_dict_def)
  have "map_of (to_dict r) ''possible_conditions''
          = Some (JList (map condition_to_dict (conditions r)))"
    by (simp add: to_dict_def)
  moreover have "\<forall>i < length (conditions r).
       \<exists>d. map condition_to_dict (conditions r) ! i = JDict d
          \<and> map_of d ''condition'' = Some (name (conditions r ! i))"
    by (simp add: condition_to_dict_def)
  ultimately show "\<exists>items. map_of (to_dict r) ''possible_conditions'' = Some (JList items)
         \<and> length items = length (conditions r)
         \<and> (\<forall>i < length (conditions r).
               \<exists>d. items ! i = JDict d \<and> map_of d ''condition'' = Some (name (conditions r ! i)))"
    by simp
qed

theorem to_dict_lifestyle_and_conditions_witness:
  "lifestyle_suggestions common_cold_result = JNull
   \<and> \<not> truthy (lifestyle_suggestions common_cold_result)
   \<and> map_of (to_dict common_cold_result) ''lifestyle_suggestions'' = Some (JList [])
   \<and> (\<exists>ys. map_of (to_dict common_cold_result) ''lifestyle_suggestions'' = Some (JList ys))
   \<and> truthy (lifestyle_suggestions
                (common_cold_result\<lparr>lifestyle_suggestions := JList [JStr ''Rest'']\<rparr>))
   \<and> map_of (to_dict (common_cold_result\<lparr>lifestyle_suggestions := JList [JStr ''Rest'']\<rparr>))
        ''lifestyle_suggestions'' = Some (JList [JStr ''Rest''])"
proof -
  let ?r = "common_cold_result\<lparr>lifestyle_suggestions := JList [JStr ''Rest'']\<rparr>"
  have n: "lifestyle_suggestions common_cold_result = JNull"
    by (simp add: common_cold_result_def)
  then have f: "\<not> truthy (lifestyle_suggestions common_cold_result)" by simp
  have t: "truthy (lifestyle_suggestions ?r)" by simp
  from n f to_dict_lifestyle_and_conditions [of common_cold_result]
  have a: "map_of (to_dict common_cold_result) ''lifestyle_suggestions'' = Some (JList [])
     \<and> (\<exists>ys. map_of (to_dict common_cold_result) ''lifestyle_suggestions'' = Some (JList ys))"
    by blast
  from t to_dict_lifestyle_and_conditions [of ?r]
  have "map_of (to_dict ?r) ''lifestyle_suggestions'' = Some (lifestyle_suggestions ?r)"
    by blast
  then have b: "map_of (to_dict ?r) ''lifestyle_suggestions'' = Some (JList [JStr ''Rest''])"
    by simp
  from n f a t b show ?thesis by blast
qed

text \<open>
  As stated, the claim says that the value is a list for every result. The reply
  \<open>reply_lifestyle_text\<close> gives its lifestyle suggestions as one text;
  \<open>parse_llm_response\<close> stores that text in the field as it is, and \<open>to_dict\<close> emits the
  text, which is not a list.
\<close>

theorem to_dict_lifestyle_not_list_counterexample:
  "parse_llm_response reply_lifestyle_text
     = Inr \<lparr>conditions = [], flagged = JBool False, urgency_level = MODERATE,
             disclaimer = MEDICAL_DISCLAIMER, lifestyle_suggestions = JStr ''rest more'',
             next_steps = JList [],
             metadata = [(''source'', JStr ''gemini_ai''), (''conditions_count'', JInt 0)]\<rparr>
   \<and> map_of (to_dict
        \<lparr>conditions = [], flagged = JBool False, urgency_level = MODERATE,
         disclaimer = MEDICAL_DISCLAIMER, lifestyle_suggestions = JStr ''rest more'',
         next_steps = JList [],
         metadata = [(''source'', JStr ''gemini_ai''), (''conditions_count'', JInt 0)]\<rparr>)
        ''lifestyle_suggestions'' = Some (JStr ''rest more'')
   \<and> JStr ''rest more'' \<noteq> JList []"
  by (simp add: reply_lifestyle_text_def parse_llm_response_def py_get_def to_dict_def)

section \<open>Scoring and ranking of facts\<close>

text \<open>The loops of \<open>get_facts_by_keywords\<close> compute the match count and the score.\<close>

lemma py_in_sublist: "py_in sub s \<longleftrightarrow> sublist sub s"
  by (induction s) (auto simp: sublist_Cons_right)

lemma matches_any_iff:
  "matches_any u fks \<longleftrightarrow> (\<exists>fk\<in>set fks. sublist u fk \<or> sublist fk u)"
  by (induction fks) (auto simp: py_in_sublist)

lemma count_matches_eq:
  "count_matches us fks n = n + length (filter (\<lambda>u. matches_any u fks) us)"
  by (induction us arbitrary: n) auto

lemma count_matches_match_count:
  "count_matches (map lower kws) (map lower (fact_keywords f)) 0 = match_count f kws"
  by (simp add: count_matches_eq matches_any_iff match_count_def keyword_matches_def
        filter_map comp_def)

lemma score_facts_eq:
  "score_facts db kws acc =
     acc @ map (\<lambda>f. (match_score f kws, f)) (filter (\<lambda>f. 0 < match_count f kws) db)"
  by (induction db arbitrary: acc)
     (simp_all add: Let_def count_matches_match_count match_score_def)

lemma insort_key_pairs:
  "insort_key (\<lambda>x. - fst x) (h a, a) (map (\<lambda>f. (h f, f)) ys)
     = map (\<lambda>f. (h f, f)) (insort_key (\<lambda>f. - h f) a ys)"
  by (induction ys) simp_all

lemma sort_key_pairs:
  "sort_key (\<lambda>x. - fst x) (map (\<lambda>f. (h f, f)) xs)
     = map (\<lambda>f. (h f, f)) (sort_key (\<lambda>f. - h f) xs)"
  by (induction xs) (simp_all add: insort_key_pairs)

lemma map_slice_to: "map g (slice_to xs k) = slice_to (map g xs) k"
  by (simp add: slice_to_def take_map)

lemma get_facts_by_keywords_eq:
  "get_facts_by_keywords kws top_k =
     slice_to (sort_key (\<lambda>f. - match_score f kws)
                 (filter (\<lambda>f. 0 < match_count f kws) MEDICAL_FACTS_DB)) top_k"
  by (simp add: get_facts_by_keywords_def score_facts_eq sort_key_pairs map_slice_to comp_def)

text \<open>
  Scores are compared as floats: 18 times 0.95 and 19 times 0.90 are the same decimal,
  and the second product is the greater float.
\<close>

lemma float_scores_differ:
  "float_mul (double 18) (double (95 / 100)) < float_mul (double 19) (double (90 / 100))"
  by code_simp

text \<open>
  Claim C9. For every keyword list and limit: \<open>get_facts_by_keywords\<close> gives each fact
  the score (number of user keywords that match one of its keywords, case-insensitively
  and in either direction, each user keyword counted once) times its reliability score,
  as floats, and keeps the facts whose match count is not zero. Its result is the prefix \<open>[:limit]\<close>,
  for a limit that is not negative the first \<open>limit\<close> entries, of a ranking that holds
  exactly the kept facts, in descending order of score, facts of equal score in the
  order of the table.
\<close>

theorem keyword_ranking:
  "\<exists>ranking.
      score_facts MEDICAL_FACTS_DB kws []
        = map (\<lambda>f. (match_score f kws, f))
            (filter (\<lambda>f. 0 < match_count f kws) MEDICAL_FACTS_DB)
    \<and> get_facts_by_keywords kws limit = slice_to ranking limit
    \<and> (0 \<le> limit \<longrightarrow> get_facts_by_keywords kws limit = take (nat limit) ranking)
    \<and> mset ranking = mset (filter (\<lambda>f. 0 < match_count f kws) MEDICAL_FACTS_DB)
    \<and> sorted_wrt (\<lambda>a b. match_score a kws \<ge> match_score b kws) ranking
    \<and> (\<forall>v. filter (\<lambda>f. match_score f kws = v) ranking
            = filter (\<lambda>f. match_score f kws = v)
                (filter (\<lambda>f. 0 < match_count f kws) MEDICAL_FACTS_DB))"
proof -
  let ?pos = "filter (\<lambda>f. 0 < match_count f kws) MEDICAL_FACTS_DB"
  let ?ranking = "sort_key (\<lambda>f. - match_score f kws) ?pos"
  have a: "score_facts MEDICAL_FACTS_DB kws [] = map (\<lambda>f. (match_score f kws, f)) ?pos"
    by (simp add: score_facts_eq)
  have b: "get_facts_by_keywords kws limit = slice_to ?ranking limit"
    by (rule get_facts_by_keywords_eq)
  then have c: "0 \<le> limit \<longrightarrow> get_facts_by_keywords kws limit = take (nat limit) ?ranking"
    by (simp add: slice_to_def)
  have d: "mset ?ranking = mset ?pos" by (rule mset_sort)
  have "sorted (map (\<lambda>f. - match_score f kws) ?ranking)" by (rule sorted_sort_key)
  then have e: "sorted_wrt (\<lambda>a b. match_score a kws \<ge> match_score b kws) ?ranking"
    by (simp add: sorted_map)
  have f: "\<forall>v. filter (\<lambda>f. match_score f kws = v) ?ranking
            = filter (\<lambda>f. match_score f kws = v) ?pos"
  proof
    fix v
    have "filter (\<lambda>f. - match_score f kws = - v) ?ranking
            = filter (\<lambda>f. - match_score f kws = - v) ?pos"
      by (rule sort_key_stable)
    then show "filter (\<lambda>f. match_score f kws = v) ?ranking
            = filter (\<lambda>f. match_score f kws = v) ?pos"
      by simp
  qed
  from a b c d e f show ?thesis by blast
qed

theorem keyword_ranking_witness:
  "(0::int) \<le> 2
   \<and> (\<exists>ranking. get_facts_by_keywords [''Fever'', ''cough''] 2 = take (nat 2) ranking
         \<and> sorted_wrt (\<lambda>a b. match_score a [''Fever'', ''cough'']
                              \<ge> match_score b [''Fever'', ''cough'']) ranking)
   \<and> get_facts_by_keywords [''Fever'', ''cough''] 2 = [fever_001, digestive_002]"
proof -
  have pos: "(0::int) \<le> 2" by simp
  from keyword_ranking [of "[''Fever'', ''cough'']" 2] pos
  have "\<exists>ranking. get_facts_by_keywords [''Fever'', ''cough''] 2 = take (nat 2) ranking
         \<and> sorted_wrt (\<lambda>a b. match_score a [''Fever'', ''cough'']
                              \<ge> match_score b [''Fever'', ''cough'']) ranking"
    by blast
  moreover have "get_facts_by_keywords [''Fever'', ''cough''] 2 = [fever_001, digestive_002]"
    by code_simp
  ultimately show ?thesis using pos by blast
qed

section \<open>How many facts retrieval returns\<close>

lemma length_slice_to: "0 \<le> k \<Longrightarrow> length (slice_to xs k) = min (nat k) (length xs)"
  by (simp add: slice_to_def min.commute)

lemma length_MEDICAL_FACTS_DB: "length MEDICAL_FACTS_DB = 13"
  by (simp add: MEDICAL_FACTS_DB_def)

lemma retrieve_relevant_facts_eq:
  assumes "k = (case top_k of Some v \<Rightarrow> v | None \<Rightarrow> self_top_k)" and "0 \<le> k"
    and "strip s \<noteq> []"
  shows "retrieve_relevant_facts self_top_k s top_k =
     (let ranking = sort_key (\<lambda>f. - match_score f (extract_keywords s))
                      (filter (\<lambda>f. 0 < match_count f (extract_keywords s)) MEDICAL_FACTS_DB)
      in if ranking = [] \<or> k = 0 then take (nat k) MEDICAL_FACTS_DB
         else take (nat k) ranking)"
proof -
  let ?kws = "extract_keywords s"
  let ?pos = "filter (\<lambda>f. 0 < match_count f ?kws) MEDICAL_FACTS_DB"
  let ?ranking = "sort_key (\<lambda>f. - match_score f ?kws) ?pos"
  from assms(3) have ne: "s \<noteq> []" by (auto simp: strip_def)
  have facts: "get_facts_by_keywords ?kws k = take (nat k) ?ranking"
    using assms(2) by (simp add: get_facts_by_keywords_eq slice_to_def)
  have all: "slice_to get_all_facts k = take (nat k) MEDICAL_FACTS_DB"
    using assms(2) by (simp add: slice_to_def get_all_facts_def)
  have empty_kws: "?kws = [] \<Longrightarrow> ?ranking = []"
    by (simp add: match_count_def)
  have "take (nat k) ?ranking = [] \<longleftrightarrow> ?ranking = [] \<or> k = 0"
    using assms(2) by auto
  with facts all empty_kws ne assms(3) show ?thesis
    by (auto simp: retrieve_relevant_facts_def Let_def assms(1) [symmetric])
qed

text \<open>
  Claim C8 (amended). Let \<open>k\<close> be the number of facts asked for, not negative. Retrieval
  returns at most \<open>k\<close> facts, and none for a blank text. For a text that is not blank,
  let \<open>m\<close> be the number of facts that match an extracted keyword: if \<open>m\<close> is zero the
  result is the first \<open>k\<close> facts of the table, so \<open>min k 13\<close> facts; otherwise it has
  \<open>min k m\<close> facts. So it is not empty whenever \<open>k\<close> is at least 1.
\<close>

theorem retrieved_fact_count:
  assumes "k = (case top_k of Some v \<Rightarrow> v | None \<Rightarrow> self_top_k)" and "0 \<le> k"
  shows "length (retrieve_relevant_facts self_top_k s top_k) \<le> nat k
     \<and> (strip s = [] \<longrightarrow> retrieve_relevant_facts self_top_k s top_k = [])
     \<and> (strip s \<noteq> [] \<longrightarrow>
          (let m = length (filter (\<lambda>f. 0 < match_count f (extract_keywords s)) MEDICAL_FACTS_DB)
           in length (retrieve_relevant_facts self_top_k s top_k)
                = (if m = 0 then min (nat k) (length MEDICAL_FACTS_DB) else min (nat k) m)
              \<and> (m = 0 \<longrightarrow> retrieve_relevant_facts self_top_k s top_k
                                = take (nat k) MEDICAL_FACTS_DB)))
     \<and> (strip s \<noteq> [] \<and> 1 \<le> k \<longrightarrow> retrieve_relevant_facts self_top_k s top_k \<noteq> [])
     \<and> length MEDICAL_FACTS_DB = 13"
proof -
  let ?kws = "extract_keywords s"
  let ?pos = "filter (\<lambda>f. 0 < match_count f ?kws) MEDICAL_FACTS_DB"
  let ?ranking = "sort_key (\<lambda>f. - match_score f ?kws) ?pos"
  let ?res = "retrieve_relevant_facts self_top_k s top_k"
  have len: "length ?ranking = length ?pos" by simp
  have blank: "strip s = [] \<longrightarrow> ?res = []"
    by (simp add: retrieve_relevant_facts_def)
  have nonblank: "strip s \<noteq> [] \<Longrightarrow>
      ?res = (if ?ranking = [] \<or> k = 0 then take (nat k) MEDICAL_FACTS_DB
              else take (nat k) ?ranking)"
    using retrieve_relevant_facts_eq [OF assms] by (simp add: Let_def)
  have rn: "?ranking = [] \<longleftrightarrow> length ?pos = 0"
    using len by (metis length_0_conv)
  have exact: "strip s \<noteq> [] \<longrightarrow>
          (let m = length ?pos
           in length ?res = (if m = 0 then min (nat k) (length MEDICAL_FACTS_DB) else min (nat k) m)
              \<and> (m = 0 \<longrightarrow> ?res = take (nat k) MEDICAL_FACTS_DB))"
  proof
    assume nb: "strip s \<noteq> []"
    show "let m = length ?pos
           in length ?res = (if m = 0 then min (nat k) (length MEDICAL_FACTS_DB) else min (nat k) m)
              \<and> (m = 0 \<longrightarrow> ?res = take (nat k) MEDICAL_FACTS_DB)"
    proof (cases "length ?pos = 0")
      case True
      with rn have "?ranking = []" by blast
      with nonblank [OF nb] have "?res = take (nat k) MEDICAL_FACTS_DB" by simp
      with True show ?thesis by (simp add: Let_def min.commute)
    next
      case False
      with rn have r: "?ranking \<noteq> []" by blast
      show ?thesis
      proof (cases "k = 0")
        case True
        with nonblank [OF nb] have "?res = []" by simp
        with True False show ?thesis by (simp add: Let_def)
      next
        case k: False
        with r nonblank [OF nb] have "?res = take (nat k) ?ranking" by simp
        then have "length ?res = min (nat k) (length ?pos)" by (simp add: min.commute)
        with False show ?thesis by (simp add: Let_def)
      qed
    qed
  qed
  have upper: "length ?res \<le> nat k"
  proof (cases "strip s = []")
    case True
    with blank show ?thesis by simp
  next
    case False
    with exact show ?thesis by (auto simp: Let_def split: if_splits)
  qed
  have nonempty: "strip s \<noteq> [] \<and> 1 \<le> k \<longrightarrow> ?res \<noteq> []"
  proof
    assume h: "strip s \<noteq> [] \<and> 1 \<le> k"
    with exact have "0 < length ?res"
      by (auto simp: Let_def length_MEDICAL_FACTS_DB split: if_splits)
    then show "?res \<noteq> []" by auto
  qed
  from upper blank exact nonempty length_MEDICAL_FACTS_DB show ?thesis by blast
qed

theorem retrieved_fact_count_witness:
  "(5::int) = (case Some 5 of Some v \<Rightarrow> v | None \<Rightarrow> 3)
   \<and> (0::int) \<le> 5
   \<and> strip ''rash'' \<noteq> []
   \<and> length (retrieve_relevant_facts 3 ''rash'' (Some 5)) \<le> nat 5
   \<and> retrieve_relevant_facts 3 ''rash'' (Some 5) \<noteq> []"
proof -
  have k: "(5::int) = (case Some 5 of Some v \<Rightarrow> v | None \<Rightarrow> 3)" by simp
  have pos: "(0::int) \<le> 5" by simp
  have nb: "strip ''rash'' \<noteq> []" by (simp add: strip_def isspace_def)
  from retrieved_fact_count [OF k pos, of "''rash''"] nb
  have "length (retrieve_relevant_facts 3 ''rash'' (Some 5)) \<le> nat 5
      \<and> retrieve_relevant_facts 3 ''rash'' (Some 5) \<noteq> []"
    by simp
  with k pos nb show ?thesis by blast
qed

text \<open>
  As stated, the claim promises at least \<open>min k 13\<close> facts for a text that is not blank,
  an empty result for blank texts only, and at most \<open>k\<close> facts for every \<open>k\<close>. The text
  "rash" matches one fact, so with \<open>k = 5\<close> one fact is returned; with \<open>k = 0\<close> the
  result is empty; with \<open>k = -1\<close> the slice \<open>[:-1]\<close> of the table has 12 facts.
\<close>

theorem retrieved_fact_count_counterexample:
  "strip ''rash'' \<noteq> []
   \<and> length (retrieve_relevant_facts 5 ''rash'' (Some 5)) = 1
   \<and> min 5 (length MEDICAL_FACTS_DB) = 5
   \<and> retrieve_relevant_facts 5 ''rash'' (Some 0) = []
   \<and> length (retrieve_relevant_facts 5 ''rash'' (Some (- 1))) = 12"
  by code_simp

end
